theory Spec2Isabelle
  imports Complex_Main "HOL-Library.Sublist" "HOL-Library.Word"
begin

section \<open>Go values used by the plotting tool\<close>

text \<open>
  The source file holds two programs: an earlier one (\<open>readDataFromFile\<close>,
  \<open>plotDataToSixel\<close>) and a later one (\<open>readData\<close>, \<open>parseLine\<close>, \<open>run\<close>,
  \<open>displaySixel\<close>). Names that both programs use (\<open>main\<close>, \<open>createPlot\<close>,
  \<open>isSixelSupported\<close>, \<open>Config\<close>) are kept for the later program; the earlier
  program's copies carry the suffix \<open>_first\<close>.

  A Go \<open>string\<close> is a sequence of bytes: \<^typ>\<open>string\<close>. A \<open>float64\<close> is a value of a type
  \<open>'f\<close> of which only the constants \<open>0\<close> and \<open>1\<close>, addition and multiplication are used
  (sort \<open>{zero, one, plus, times}\<close>: no law of arithmetic is assumed, so every theorem
  holds of IEEE 754 doubles as well). The library functions on \<open>float64\<close> that the
  programs call are parameters:
  \<^item> \<open>pf\<close> is \<open>strconv.ParseFloat(s, 64)\<close>: \<open>None\<close> when it returns an error;
  \<^item> \<open>ofInt\<close> is the conversion \<open>float64(n)\<close>, \<open>toInt\<close> is the conversion \<open>int(x)\<close>.

  The one comparison of \<open>float64\<close> values in the programs is \<open>!= 1.0\<close>, on which Go's
  comparison and the equality of values agree. A Go \<open>int\<close> that the programs only pass
  on or compare with zero is an \<^typ>\<open>int\<close>; the count of lines is a \<^typ>\<open>nat\<close>.
\<close>

subsection \<open>Package \<open>strings\<close>\<close>

text \<open>
  White space as the ASCII table of package \<open>strings\<close> has it: tab, line feed, vertical
  tab, form feed, carriage return and space. (The white space of Unicode that takes
  several bytes in UTF-8 is outside this model: the definitions below are those of
  \<open>strings.TrimSpace\<close> and \<open>strings.Fields\<close> on every string whose white space is ASCII.)
\<close>

definition isSpace :: "char \<Rightarrow> bool" where
  "isSpace c = (c = CHR 0x09 \<or> c = CHR 0x0A \<or> c = CHR 0x0B \<or> c = CHR 0x0C
                \<or> c = CHR 0x0D \<or> c = CHR 0x20)"

definition TrimSpace :: "string \<Rightarrow> string" where
  "TrimSpace s = rev (dropWhile isSpace (rev (dropWhile isSpace s)))"

text \<open>
  \<open>strings.Fields\<close>: the maximal runs of bytes that are not white space, in order.
  \<open>fieldsFrom w s\<close> is the scan of \<open>s\<close> with the field \<open>w\<close> open.
\<close>

fun fieldsFrom :: "string \<Rightarrow> string \<Rightarrow> string list" where
  "fieldsFrom w [] = (if w = [] then [] else [w])"
| "fieldsFrom w (c # cs) =
     (if isSpace c then (if w = [] then fieldsFrom [] cs else w # fieldsFrom [] cs)
      else fieldsFrom (w @ [c]) cs)"

definition Fields :: "string \<Rightarrow> string list" where
  "Fields s = fieldsFrom [] s"

definition HasPrefix :: "string \<Rightarrow> string \<Rightarrow> bool" where
  "HasPrefix s p = prefix p s"

fun Contains :: "string \<Rightarrow> string \<Rightarrow> bool" where
  "Contains [] substr = (substr = [])"
| "Contains (c # cs) substr = (prefix substr (c # cs) \<or> Contains cs substr)"

text \<open>
  \<open>strings.ToLower\<close> on ASCII text: the letters \<open>A\<close> to \<open>Z\<close> go to \<open>a\<close> to \<open>z\<close>. (A
  byte outside ASCII is left as it is; the letters outside ASCII that Go maps to lower
  case are outside this model.)
\<close>

definition toLowerByte :: "char \<Rightarrow> char" where
  "toLowerByte c =
     (if 65 \<le> (of_char c :: nat) \<and> (of_char c :: nat) \<le> 90
      then char_of (of_char c + (32 :: nat)) else c)"

definition ToLower :: "string \<Rightarrow> string" where
  "ToLower s = map toLowerByte s"

subsection \<open>Runtime panics and error results\<close>

text \<open>
  An index expression out of range is a runtime panic, which ends the process. A
  computation that may panic returns a \<open>checked\<close> value. A Go function that returns a
  value and an \<open>error\<close> returns a sum: \<open>Inl\<close> the error, \<open>Inr\<close> the value.
\<close>

datatype panic = IndexOutOfRange nat nat

datatype 'a checked = Panic panic | Done 'a

text \<open>\<open>xs[i]\<close> on a string or a slice.\<close>

definition index :: "'a list \<Rightarrow> nat \<Rightarrow> 'a checked" where
  "index xs i = (if i < length xs then Done (xs ! i) else Panic (IndexOutOfRange i (length xs)))"

text \<open>\<open>a || b\<close>: the right operand is evaluated only when the left one is false.\<close>

definition orElse :: "bool checked \<Rightarrow> bool checked \<Rightarrow> bool checked" where
  "orElse a b = (case a of Panic p \<Rightarrow> Panic p | Done l \<Rightarrow> if l then Done True else b)"

text \<open>\<open>s[i] == c\<close>.\<close>

definition byteIs :: "string \<Rightarrow> nat \<Rightarrow> char \<Rightarrow> bool checked" where
  "byteIs s i c = (case index s i of Panic p \<Rightarrow> Panic p | Done b \<Rightarrow> Done (b = c))"

subsection \<open>Packages \<open>os\<close>, \<open>path/filepath\<close> and \<open>strings\<close>, continued\<close>

text \<open>\<open>os.Getenv\<close>: the value of the variable, empty when it is not set.\<close>

definition Getenv :: "(string \<Rightarrow> string option) \<Rightarrow> string \<Rightarrow> string" where
  "Getenv env key = (case env key of None \<Rightarrow> [] | Some v \<Rightarrow> v)"

text \<open>
  \<open>filepath.Ext\<close>: the suffix that begins at the last dot of the last element of the
  path, empty when that element has no dot.
\<close>

definition Ext :: "string \<Rightarrow> string" where
  "Ext path =
     (let element = takeWhile (\<lambda>c. c \<noteq> CHR ''/'') (rev path) in
      if CHR ''.'' \<in> set element
      then CHR ''.'' # rev (takeWhile (\<lambda>c. c \<noteq> CHR ''.'') element) else [])"

definition TrimSuffix :: "string \<Rightarrow> string \<Rightarrow> string" where
  "TrimSuffix s suf = (if suffix suf s then take (length s - length suf) s else s)"

section \<open>Data, errors and effects\<close>

text \<open>\<open>Point\<close> in the later program, \<open>DataPoint\<close> in the earlier one: the same struct.\<close>

record 'f Point =
  X :: 'f
  Y :: 'f

type_synonym 'f DataPoint = "'f Point"

text \<open>
  The errors of \<open>parseLine\<close>, by their messages: \<open>invalid X value %q\<close> and
  \<open>invalid Y value %q\<close> (with the field), \<open>expected 1 or 2 values, got %d\<close> (with the
  number of fields).
\<close>

datatype axis = AxisX | AxisY

datatype LineParseError = InvalidValue axis string | UnsupportedFormat nat

text \<open>
  The errors of the later program, by the text each one adds in front of its cause:
  \<open>open file\<close>, \<open>scan file\<close>; \<open>create line plotter\<close>, \<open>create scatter plotter\<close>,
  \<open>creating plotters\<close>, \<open>save plot\<close>; \<open>open image file\<close>, \<open>decode image\<close>,
  \<open>encode SIXEL\<close>; and in \<open>run\<close>: \<open>reading data from %q\<close>,
  \<open>no valid data points found in %q\<close>, \<open>creating plot\<close>, \<open>displaying SIXEL\<close>.
\<close>

datatype read_error = OpenFile string | ScanFile string

datatype plotters_error = CreateLinePlotter string | CreateScatterPlotter string

datatype plot_error = CreatingPlotters plotters_error | SavePlot string

datatype sixel_error = OpenImageFile string | DecodeImage string | EncodeSIXEL string

datatype run_error =
    ReadingData string read_error
  | NoValidDataPoints string
  | CreatingPlot plot_error
  | DisplayingSIXEL sixel_error

text \<open>
  The errors of the earlier program, by their messages: \<open>failed to open file\<close>,
  \<open>error reading file\<close>, \<open>no valid data points found in file\<close>, \<open>error creating line\<close>,
  \<open>error creating scatter\<close>, \<open>failed to save plot\<close>, \<open>failed to open saved image\<close>,
  \<open>failed to decode saved image\<close>, \<open>failed to encode sixel\<close>.
\<close>

datatype first_error =
    FailedToOpenFile string
  | ErrorReadingFile string
  | NoValidDataPointsInFile
  | ErrorCreatingLine string
  | ErrorCreatingScatter string
  | FailedToSavePlot string
  | FailedToOpenSavedImage string
  | FailedToDecodeSavedImage string
  | FailedToEncodeSixel string

text \<open>
  What the programs do to the outside, in order. The later program logs
  (\<open>Skipping line %.0f in %s: %v\<close>, \<open>Plot saved to: %s\<close>, the fatal error, the usage);
  the earlier one prints (\<open>Parsing error on line %d: %s\<close>,
  \<open>Unsupported format on line %d: %s\<close>, \<open>Plot saved to file:\<close>,
  \<open>Terminal does not support Sixel. Plot saved to file:\<close>, \<open>Error: %v\<close>, the usage).
  \<open>WritePlot w h file\<close> is \<open>p.Save(w, h, file)\<close> having written the image;
  \<open>EncodeSixel w h\<close> is \<open>enc.Encode(img)\<close> called on standard output with the
  encoder's \<open>Width\<close> and \<open>Height\<close> being \<open>w\<close> and \<open>h\<close>.
\<close>

datatype 'f event =
    LogSkipping 'f string LineParseError
  | LogPlotSaved string
  | LogFatal run_error
  | LogFatalUsage
  | WritePlot 'f 'f string
  | EncodeSixel int int
  | PrintParsingError nat string
  | PrintUnsupportedFormat nat string
  | PrintPlotSaved string
  | PrintNoSixel string
  | PrintError first_error
  | PrintUsage

text \<open>
  \<open>os.Open\<close> followed by a \<open>bufio.Scanner\<close> over the file: the open fails, or the
  scanner delivers \<open>scanLines\<close> one by one and then stops, with the error \<open>scanErr\<close>
  if it did not reach the end of the file.
\<close>

record scanned =
  scanLines :: "string list"
  scanErr :: "string option"

type_synonym filesystem = "string \<Rightarrow> string + scanned"

text \<open>
  The libraries and the machine the programs run on. Each library call that can fail
  gives its error, \<open>None\<close> when it succeeds: \<open>plotter.NewLine\<close> and
  \<open>plotter.NewScatter\<close> on the points, \<open>p.Save\<close> on the two lengths and the file
  name, \<open>os.Open\<close> and \<open>image.Decode\<close> on the saved image, \<open>enc.Encode\<close> on the
  encoder's width and height and the image.
\<close>

record 'f world =
  ParseFloat :: "string \<Rightarrow> 'f option"
  ofInt :: "int \<Rightarrow> 'f"
  toInt :: "'f \<Rightarrow> int"
  files :: filesystem
  environ :: "string \<Rightarrow> string option"
  NewLine :: "'f Point list \<Rightarrow> string option"
  NewScatter :: "'f Point list \<Rightarrow> string option"
  Save :: "'f \<Rightarrow> 'f \<Rightarrow> string \<Rightarrow> string option"
  OpenImage :: "string \<Rightarrow> string option"
  Decode :: "string \<Rightarrow> string option"
  Encode :: "int \<Rightarrow> int \<Rightarrow> string \<Rightarrow> string option"

text \<open>\<open>sixel.Encoder\<close>: the fields \<open>Width\<close> and \<open>Height\<close>, zero in a new encoder.\<close>

record Encoder =
  encWidth :: int
  encHeight :: int

definition NewEncoder :: Encoder where
  "NewEncoder = \<lparr>encWidth = 0, encHeight = 0\<rparr>"

section \<open>The later program\<close>

datatype RGBA = RGBA "8 word" "8 word" "8 word" "8 word"

record Colors =
  Line :: RGBA
  Scatter :: RGBA
  Background :: RGBA

record 'f Config =
  Width :: int
  Height :: int
  Scale :: 'f
  Input :: string
  LineWidth :: 'f
  Colors :: Colors

definition defaultWidth :: int where "defaultWidth = 1200"
definition defaultHeight :: int where "defaultHeight = 1200"
definition defaultScale :: "'f::one" where "defaultScale = 1"
definition defaultLineWidth :: "'f::one" where "defaultLineWidth = 1"

definition defaultColors :: Colors where
  "defaultColors =
     \<lparr>Line = RGBA 0 0 0 255, Scatter = RGBA 0 0 0 255, Background = RGBA 255 255 255 255\<rparr>"

subsection \<open>\<open>parseFlags\<close>\<close>

text \<open>
  The command line after \<open>flag.Parse\<close>: the value of each flag that was given, and
  the arguments that are not flags.
\<close>

record 'f cmdline =
  flag_w :: "int option"
  flag_h :: "int option"
  flag_s :: "'f option"
  flag_line_width :: "'f option"
  Args :: "string list"

definition flagOr :: "'a \<Rightarrow> 'a option \<Rightarrow> 'a" where
  "flagOr d v = (case v of None \<Rightarrow> d | Some x \<Rightarrow> x)"

text \<open>\<open>flag.Arg(i)\<close>: the \<open>i\<close>-th argument, empty when there is none.\<close>

definition Arg :: "string list \<Rightarrow> nat \<Rightarrow> string" where
  "Arg args i = (if i < length args then args ! i else [])"

text \<open>\<open>None\<close>: \<open>log.Fatal\<close> with the usage.\<close>

definition parseFlags :: "'f::one cmdline \<Rightarrow> 'f Config option" where
  "parseFlags cl =
     (if length (Args cl) \<noteq> 1 then None
      else Some \<lparr>Width = flagOr defaultWidth (flag_w cl),
                 Height = flagOr defaultHeight (flag_h cl),
                 Scale = flagOr defaultScale (flag_s cl),
                 Input = Arg (Args cl) 0,
                 LineWidth = flagOr defaultLineWidth (flag_line_width cl),
                 Colors = defaultColors\<rparr>)"

subsection \<open>\<open>parseLine\<close>\<close>

definition parseLine ::
  "(string \<Rightarrow> 'f option) \<Rightarrow> string \<Rightarrow> 'f \<Rightarrow> (LineParseError + 'f Point) checked" where
  "parseLine pf line lineIndex =
     (let fields = Fields line in
      if length fields = 1 then
        (case index fields 0 of Panic p \<Rightarrow> Panic p | Done f0 \<Rightarrow>
           (case pf f0 of
              None \<Rightarrow> Done (Inl (InvalidValue AxisY f0))
            | Some y \<Rightarrow> Done (Inr \<lparr>X = lineIndex, Y = y\<rparr>)))
      else if length fields = 2 then
        (case index fields 0 of Panic p \<Rightarrow> Panic p | Done f0 \<Rightarrow>
           (case pf f0 of
              None \<Rightarrow> Done (Inl (InvalidValue AxisX f0))
            | Some x \<Rightarrow>
                (case index fields 1 of Panic p \<Rightarrow> Panic p | Done f1 \<Rightarrow>
                   (case pf f1 of
                      None \<Rightarrow> Done (Inl (InvalidValue AxisY f1))
                    | Some y \<Rightarrow> Done (Inr \<lparr>X = x, Y = y\<rparr>)))))
      else Done (Inl (UnsupportedFormat (length fields))))"

subsection \<open>\<open>readData\<close>\<close>

text \<open>\<open>line == "" || line[0] == '#' || line[0] == '%'\<close>\<close>

definition ignored :: "string \<Rightarrow> bool checked" where
  "ignored line =
     orElse (Done (line = [])) (orElse (byteIs line 0 (CHR ''#'')) (byteIs line 0 (CHR ''%'')))"

text \<open>
  One iteration of the loop, on the text of one line. The variables of the loop are
  \<open>points\<close> and \<open>lineIndex\<close>; the iteration gives what it logged and their new values.
\<close>

definition readData_body ::
  "(string \<Rightarrow> 'f option) \<Rightarrow> string \<Rightarrow> string \<Rightarrow> 'f::{zero,one,plus} Point list \<times> 'f
     \<Rightarrow> 'f event list \<times> ('f Point list \<times> 'f) checked" where
  "readData_body pf filename text vars =
     (case vars of (points, lineIndex) \<Rightarrow>
      (let line = TrimSpace text in
       case ignored line of
         Panic p \<Rightarrow> ([], Panic p)
       | Done True \<Rightarrow> ([], Done (points, lineIndex))
       | Done False \<Rightarrow>
           (case parseLine pf line lineIndex of
              Panic p \<Rightarrow> ([], Panic p)
            | Done (Inl err) \<Rightarrow>
                ([LogSkipping (lineIndex + 1) filename err], Done (points, lineIndex))
            | Done (Inr point) \<Rightarrow> ([], Done (points @ [point], lineIndex + 1)))))"

fun readData_loop ::
  "(string \<Rightarrow> 'f option) \<Rightarrow> string \<Rightarrow> string list \<Rightarrow> 'f::{zero,one,plus} Point list \<times> 'f
     \<Rightarrow> 'f event list \<times> ('f Point list \<times> 'f) checked" where
  "readData_loop pf filename [] vars = ([], Done vars)"
| "readData_loop pf filename (text # rest) vars =
     (case readData_body pf filename text vars of
        (evs, Panic p) \<Rightarrow> (evs, Panic p)
      | (evs, Done vars') \<Rightarrow>
          (case readData_loop pf filename rest vars' of (evs', r) \<Rightarrow> (evs @ evs', r)))"

definition readData ::
  "(string \<Rightarrow> 'f option) \<Rightarrow> filesystem \<Rightarrow> string
     \<Rightarrow> 'f::{zero,one,plus} event list \<times> (read_error + 'f Point list) checked" where
  "readData pf fs filename =
     (case fs filename of
        Inl err \<Rightarrow> ([], Done (Inl (OpenFile err)))
      | Inr file \<Rightarrow>
          (case readData_loop pf filename (scanLines file) ([], 0) of
             (evs, Panic p) \<Rightarrow> (evs, Panic p)
           | (evs, Done (points, lineIndex)) \<Rightarrow>
               (case scanErr file of
                  Some err \<Rightarrow> (evs, Done (Inl (ScanFile err)))
                | None \<Rightarrow> (evs, Done (Inr points)))))"

subsection \<open>\<open>createPlot\<close>\<close>

text \<open>
  Of the plot, what reaches the outside is the file that \<open>p.Save\<close> writes and its two
  lengths; the title, the labels, the colours and the glyph radius are settings of
  the plotting library's objects and are not modelled. \<open>vg.Points\<close> converts a
  \<open>float64\<close> to a length of that many points.
\<close>

definition createPlotters :: "'f world \<Rightarrow> 'f Point list \<Rightarrow> 'f Config \<Rightarrow> plotters_error + unit" where
  "createPlotters w pts cfg =
     (case NewLine w pts of
        Some err \<Rightarrow> Inl (CreateLinePlotter err)
      | None \<Rightarrow>
          (case NewScatter w pts of
             Some err \<Rightarrow> Inl (CreateScatterPlotter err)
           | None \<Rightarrow> Inr ()))"

definition createPlot ::
  "'f world \<Rightarrow> 'f Point list \<Rightarrow> string \<Rightarrow> 'f Config \<Rightarrow> 'f event list \<times> (plot_error + unit)" where
  "createPlot w points outFile cfg =
     (let pts = map (\<lambda>pt. \<lparr>X = X pt, Y = Y pt\<rparr>) points in
      case createPlotters w pts cfg of
        Inl err \<Rightarrow> ([], Inl (CreatingPlotters err))
      | Inr u \<Rightarrow>
          (case Save w (ofInt w (Width cfg)) (ofInt w (Height cfg)) outFile of
             Some err \<Rightarrow> ([], Inl (SavePlot err))
           | None \<Rightarrow> ([WritePlot (ofInt w (Width cfg)) (ofInt w (Height cfg)) outFile], Inr ())))"

subsection \<open>\<open>displaySixel\<close>\<close>

definition isSixelSupported :: "(string \<Rightarrow> string option) \<Rightarrow> bool" where
  "isSixelSupported env =
     (let term = ToLower (Getenv env ''TERM'') in
      Contains term ''xterm'' \<or> Contains term ''vt340'' \<or> Contains term ''mlterm'')"

definition displaySixel ::
  "'f::{one,times} world \<Rightarrow> string \<Rightarrow> 'f Config \<Rightarrow> 'f event list \<times> (sixel_error + unit)" where
  "displaySixel w filename cfg =
     (if \<not> isSixelSupported (environ w) then ([], Inr ())
      else case OpenImage w filename of
        Some err \<Rightarrow> ([], Inl (OpenImageFile err))
      | None \<Rightarrow>
          (case Decode w filename of
             Some err \<Rightarrow> ([], Inl (DecodeImage err))
           | None \<Rightarrow>
               (let enc = NewEncoder;
                    enc = (if Scale cfg \<noteq> 1
                           then enc\<lparr>encWidth := toInt w (ofInt w (Width cfg) * Scale cfg),
                                    encHeight := toInt w (ofInt w (Height cfg) * Scale cfg)\<rparr>
                           else enc)
                in case Encode w (encWidth enc) (encHeight enc) filename of
                     Some err \<Rightarrow> ([EncodeSixel (encWidth enc) (encHeight enc)], Inl (EncodeSIXEL err))
                   | None \<Rightarrow> ([EncodeSixel (encWidth enc) (encHeight enc)], Inr ()))))"

subsection \<open>\<open>run\<close> and \<open>main\<close>\<close>

definition run ::
  "'f::{zero,one,plus,times} world \<Rightarrow> 'f Config \<Rightarrow> 'f event list \<times> (run_error + unit) checked" where
  "run w cfg =
     (case readData (ParseFloat w) (files w) (Input cfg) of
        (evs, Panic p) \<Rightarrow> (evs, Panic p)
      | (evs, Done (Inl err)) \<Rightarrow> (evs, Done (Inl (ReadingData (Input cfg) err)))
      | (evs, Done (Inr points)) \<Rightarrow>
          if length points = 0 then (evs, Done (Inl (NoValidDataPoints (Input cfg))))
          else
            (let outFile = TrimSuffix (Input cfg) (Ext (Input cfg)) @ ''_plot.png'' in
             case createPlot w points outFile cfg of
               (evs1, Inl err) \<Rightarrow> (evs @ evs1, Done (Inl (CreatingPlot err)))
             | (evs1, Inr u) \<Rightarrow>
                 (case displaySixel w outFile cfg of
                    (evs2, Inl err) \<Rightarrow>
                      (evs @ evs1 @ [LogPlotSaved outFile] @ evs2, Done (Inl (DisplayingSIXEL err)))
                  | (evs2, Inr u) \<Rightarrow>
                      (evs @ evs1 @ [LogPlotSaved outFile] @ evs2, Done (Inr ())))))"

text \<open>
  \<open>main\<close> gives the events and the exit status of the process: 1 after \<open>log.Fatal\<close>
  (after \<open>os.Exit(1)\<close> in the earlier program), 2 after a panic, 0 when \<open>main\<close>
  returns.
\<close>

definition main :: "'f::{zero,one,plus,times} world \<Rightarrow> 'f cmdline \<Rightarrow> 'f event list \<times> nat" where
  "main w cl =
     (case parseFlags cl of
        None \<Rightarrow> ([LogFatalUsage], 1)
      | Some cfg \<Rightarrow>
          (case run w cfg of
             (evs, Panic p) \<Rightarrow> (evs, 2)
           | (evs, Done (Inl err)) \<Rightarrow> (evs @ [LogFatal err], 1)
           | (evs, Done (Inr u)) \<Rightarrow> (evs, 0)))"

section \<open>The earlier program\<close>

record 'f Config_first =
  width :: int
  height :: int
  scale :: 'f

text \<open>The colour that \<open>createPlot\<close> gives the line and the glyphs.\<close>

definition plotColor_first :: RGBA where
  "plotColor_first = RGBA 255 0 0 255"

subsection \<open>\<open>readDataFromFile\<close>\<close>

text \<open>
  One iteration of the loop, on the text of one line. The variables of the loop are
  \<open>points\<close>, \<open>lineNumber\<close> and \<open>lineCount\<close>.
\<close>

definition readDataFromFile_body ::
  "(string \<Rightarrow> 'f option) \<Rightarrow> string \<Rightarrow> 'f::{zero,one,plus} DataPoint list \<times> 'f \<times> nat
     \<Rightarrow> 'f event list \<times> ('f DataPoint list \<times> 'f \<times> nat) checked" where
  "readDataFromFile_body pf line vars =
     (case vars of (points, lineNumber, lineCount0) \<Rightarrow>
      (let lineCount = lineCount0 + 1 in
       if HasPrefix line ''#'' \<or> HasPrefix line ''%'' \<or> HasPrefix line ''/''
       then ([], Done (points, lineNumber, lineCount))
       else
         (let fields = Fields line in
          if length fields = 0 then ([], Done (points, lineNumber, lineCount))
          else if length fields \<ge> 2 then
            (case index fields 0 of Panic p \<Rightarrow> ([], Panic p) | Done f0 \<Rightarrow>
               (case index fields 1 of Panic p \<Rightarrow> ([], Panic p) | Done f1 \<Rightarrow>
                  (case pf f0 of
                     None \<Rightarrow> ([PrintParsingError lineCount line], Done (points, lineNumber, lineCount))
                   | Some x \<Rightarrow>
                       (case pf f1 of
                          None \<Rightarrow>
                            ([PrintParsingError lineCount line], Done (points, lineNumber, lineCount))
                        | Some y \<Rightarrow>
                            ([], Done (points @ [\<lparr>X = x, Y = y\<rparr>], lineNumber + 1, lineCount))))))
          else if length fields = 1 then
            (case index fields 0 of Panic p \<Rightarrow> ([], Panic p) | Done f0 \<Rightarrow>
               (case pf f0 of
                  None \<Rightarrow> ([PrintParsingError lineCount line], Done (points, lineNumber, lineCount))
                | Some y \<Rightarrow>
                    ([], Done (points @ [\<lparr>X = lineNumber, Y = y\<rparr>], lineNumber + 1, lineCount))))
          else ([PrintUnsupportedFormat lineCount line], Done (points, lineNumber, lineCount)))))"

fun readDataFromFile_loop ::
  "(string \<Rightarrow> 'f option) \<Rightarrow> string list \<Rightarrow> 'f::{zero,one,plus} DataPoint list \<times> 'f \<times> nat
     \<Rightarrow> 'f event list \<times> ('f DataPoint list \<times> 'f \<times> nat) checked" where
  "readDataFromFile_loop pf [] vars = ([], Done vars)"
| "readDataFromFile_loop pf (line # rest) vars =
     (case readDataFromFile_body pf line vars of
        (evs, Panic p) \<Rightarrow> (evs, Panic p)
      | (evs, Done vars') \<Rightarrow>
          (case readDataFromFile_loop pf rest vars' of (evs', r) \<Rightarrow> (evs @ evs', r)))"

definition readDataFromFile ::
  "(string \<Rightarrow> 'f option) \<Rightarrow> filesystem \<Rightarrow> string
     \<Rightarrow> 'f::{zero,one,plus} event list \<times> (first_error + 'f DataPoint list) checked" where
  "readDataFromFile pf fs filename =
     (case fs filename of
        Inl err \<Rightarrow> ([], Done (Inl (FailedToOpenFile err)))
      | Inr file \<Rightarrow>
          (case readDataFromFile_loop pf (scanLines file) ([], 0, 0) of
             (evs, Panic p) \<Rightarrow> (evs, Panic p)
           | (evs, Done (points, lineNumber, lineCount)) \<Rightarrow>
               (case scanErr file of
                  Some err \<Rightarrow> (evs, Done (Inl (ErrorReadingFile err)))
                | None \<Rightarrow> (evs, Done (Inr points)))))"

subsection \<open>\<open>createPlot\<close>, \<open>isSixelSupported\<close>, \<open>plotDataToSixel\<close> and \<open>main\<close>\<close>

definition createPlot_first :: "'f world \<Rightarrow> 'f DataPoint list \<Rightarrow> first_error + unit" where
  "createPlot_first w data =
     (let pts = map (\<lambda>point. \<lparr>X = X point, Y = Y point\<rparr>) data in
      case NewLine w pts of
        Some err \<Rightarrow> Inl (ErrorCreatingLine err)
      | None \<Rightarrow>
          (case NewScatter w pts of
             Some err \<Rightarrow> Inl (ErrorCreatingScatter err)
           | None \<Rightarrow> Inr ()))"

definition isSixelSupported_first :: "(string \<Rightarrow> string option) \<Rightarrow> bool" where
  "isSixelSupported_first env =
     (let term = Getenv env ''TERM'' in
      Contains term ''xterm'' \<or> Contains term ''vt340'' \<or> Contains term ''mlterm'')"

definition plotDataToSixel ::
  "'f::{zero,one,plus,times} world \<Rightarrow> string \<Rightarrow> 'f Config_first
     \<Rightarrow> 'f event list \<times> (first_error + unit) checked" where
  "plotDataToSixel w filename config =
     (case readDataFromFile (ParseFloat w) (files w) filename of
        (evs, Panic p) \<Rightarrow> (evs, Panic p)
      | (evs, Done (Inl err)) \<Rightarrow> (evs, Done (Inl err))
      | (evs, Done (Inr data)) \<Rightarrow>
          if length data = 0 then (evs, Done (Inl NoValidDataPointsInFile))
          else
            (case createPlot_first w data of
               Inl err \<Rightarrow> (evs, Done (Inl err))
             | Inr u \<Rightarrow>
                 (let outFileName = TrimSuffix filename (Ext filename) @ ''_plot.png'';
                      width' = ofInt w (width config);
                      height' = ofInt w (height config)
                  in case Save w width' height' outFileName of
                    Some err \<Rightarrow> (evs, Done (Inl (FailedToSavePlot err)))
                  | None \<Rightarrow>
                      (let evs1 = evs @ [WritePlot width' height' outFileName, PrintPlotSaved outFileName] in
                       if isSixelSupported_first (environ w) then
                         (case OpenImage w outFileName of
                            Some err \<Rightarrow> (evs1, Done (Inl (FailedToOpenSavedImage err)))
                          | None \<Rightarrow>
                              (case Decode w outFileName of
                                 Some err \<Rightarrow> (evs1, Done (Inl (FailedToDecodeSavedImage err)))
                               | None \<Rightarrow>
                                   (let enc = NewEncoder;
                                        newWidth = toInt w (ofInt w (width config) * scale config);
                                        newHeight = toInt w (ofInt w (height config) * scale config);
                                        enc = (if scale config \<noteq> 1 \<and> newWidth > 0 \<and> newHeight > 0
                                               then enc\<lparr>encWidth := newWidth, encHeight := newHeight\<rparr>
                                               else enc)
                                    in case Encode w (encWidth enc) (encHeight enc) outFileName of
                                         Some err \<Rightarrow>
                                           (evs1 @ [EncodeSixel (encWidth enc) (encHeight enc)],
                                            Done (Inl (FailedToEncodeSixel err)))
                                       | None \<Rightarrow>
                                           (evs1 @ [EncodeSixel (encWidth enc) (encHeight enc)],
                                            Done (Inr ())))))
                       else (evs1 @ [PrintNoSixel outFileName], Done (Inr ()))))))"

record 'f cmdline_first =
  flag_width :: "int option"
  flag_height :: "int option"
  flag_scale :: "'f option"
  Args_first :: "string list"

definition main_first ::
  "'f::{zero,one,plus,times} world \<Rightarrow> 'f cmdline_first \<Rightarrow> 'f event list \<times> nat" where
  "main_first w cl =
     (let config = \<lparr>width = flagOr 800 (flag_width cl), height = flagOr 600 (flag_height cl),
                    scale = flagOr 1 (flag_scale cl)\<rparr> in
      if length (Args_first cl) \<noteq> 1 then ([PrintUsage], 1)
      else
        (let dataPath = Arg (Args_first cl) 0 in
         case plotDataToSixel w dataPath config of
           (evs, Panic p) \<Rightarrow> (evs, 2)
         | (evs, Done (Inl err)) \<Rightarrow> (evs @ [PrintError err], 1)
         | (evs, Done (Inr u)) \<Rightarrow> (evs, 0)))"

section \<open>The specification's notions\<close>

text \<open>
  The synthetic X of the specification: a counter that starts at zero and grows by
  \<open>1.0\<close> with every point. \<open>counter n\<close> is its value after \<open>n\<close> points.
\<close>

definition counter :: "nat \<Rightarrow> 'f::{zero,one,plus}" where
  "counter n = ((\<lambda>x. x + 1) ^^ n) 0"

text \<open>
  The lines that are neither blank nor comments, trimmed: what is left after the
  specification's skipping policy.
\<close>

definition isBlankOrComment :: "string \<Rightarrow> bool" where
  "isBlankOrComment text =
     (case TrimSpace text of [] \<Rightarrow> True | c # cs \<Rightarrow> c = CHR ''#'' \<or> c = CHR ''%'')"

definition dataLines :: "string list \<Rightarrow> string list" where
  "dataLines texts = map TrimSpace (filter (\<lambda>text. \<not> isBlankOrComment text) texts)"

text \<open>A line parses when \<open>parseLine\<close> gives a point for it.\<close>

definition parses :: "(string \<Rightarrow> 'f::zero option) \<Rightarrow> string \<Rightarrow> bool" where
  "parses pf line = (case parseLine pf line 0 of Done (Inr point) \<Rightarrow> True | _ \<Rightarrow> False)"

text \<open>
  The points of the lines that parse, in the order of the file: the \<open>k\<close>-th such line
  is parsed with the counter at \<open>k\<close>.
\<close>

definition pointAt :: "(string \<Rightarrow> 'f option) \<Rightarrow> nat \<times> string \<Rightarrow> 'f::{zero,one,plus} Point list" where
  "pointAt pf kl =
     (case parseLine pf (snd kl) (counter (fst kl)) of Done (Inr point) \<Rightarrow> [point] | _ \<Rightarrow> [])"

definition parsedPoints :: "(string \<Rightarrow> 'f option) \<Rightarrow> string list \<Rightarrow> 'f::{zero,one,plus} Point list" where
  "parsedPoints pf texts =
     concat (map (pointAt pf) (enumerate 0 (filter (parses pf) (dataLines texts))))"

text \<open>The data lines that do not parse.\<close>

definition malformedLines :: "(string \<Rightarrow> 'f::zero option) \<Rightarrow> string list \<Rightarrow> string list" where
  "malformedLines pf texts = filter (\<lambda>line. \<not> parses pf line) (dataLines texts)"

text \<open>
  The diagnostics of \<open>readData\<close> on a file, and the error that each one reports; the
  error of a line that does not parse.
\<close>

fun isLogSkipping :: "string \<Rightarrow> 'f event \<Rightarrow> bool" where
  "isLogSkipping filename (LogSkipping i name err) = (name = filename)"
| "isLogSkipping filename _ = False"

fun skippedError :: "'f event \<Rightarrow> LineParseError list" where
  "skippedError (LogSkipping i name err) = [err]"
| "skippedError _ = []"

definition lineError :: "(string \<Rightarrow> 'f::zero option) \<Rightarrow> string \<Rightarrow> LineParseError list" where
  "lineError pf line = (case parseLine pf line 0 of Done (Inl err) \<Rightarrow> [err] | _ \<Rightarrow> [])"

text \<open>
  A string contains a name case-insensitively when one of its substrings is the name
  up to the case of its letters.
\<close>

definition containsIgnoringCase :: "string \<Rightarrow> string \<Rightarrow> bool" where
  "containsIgnoringCase s name = (\<exists>u. sublist u s \<and> ToLower u = ToLower name)"

text \<open>The points of a result, when it has any.\<close>

definition pointsOf :: "('e + 'f Point list) checked \<Rightarrow> 'f Point list option" where
  "pointsOf r = (case r of Done (Inr points) \<Rightarrow> Some points | _ \<Rightarrow> None)"

text \<open>The events that encode an image for the terminal.\<close>

fun isEncodeSixel :: "'f event \<Rightarrow> bool" where
  "isEncodeSixel (EncodeSixel a b) = True"
| "isEncodeSixel _ = False"

section \<open>Inputs for evaluation\<close>

text \<open>
  A fragment of \<open>strconv.ParseFloat\<close> on which the definitions can be evaluated: an
  unsigned decimal integer of at most 15 digits is read as that number, which a
  \<open>float64\<close> holds exactly. Every other input is an error here; \<open>ParseFloat\<close> itself
  accepts more (signs, fractions, exponents, hexadecimal, infinities, NaN).
\<close>

definition isDigit :: "char \<Rightarrow> bool" where
  "isDigit c = (48 \<le> (of_char c :: nat) \<and> (of_char c :: nat) \<le> 57)"

definition decimalValue :: "string \<Rightarrow> nat" where
  "decimalValue s = foldl (\<lambda>a c. 10 * a + (of_char c - 48)) 0 s"

definition parseDecimal :: "string \<Rightarrow> real option" where
  "parseDecimal s =
     (if s \<noteq> [] \<and> length s \<le> 15 \<and> list_all isDigit s
      then Some (of_nat (decimalValue s)) else None)"

text \<open>
  The conversions between \<open>int\<close> and \<open>float64\<close> on the numbers that a \<open>float64\<close>
  holds exactly: \<open>int(x)\<close> drops the fraction.
\<close>

definition truncReal :: "real \<Rightarrow> int" where
  "truncReal x = (if 0 \<le> x then \<lfloor>x\<rfloor> else \<lceil>x\<rceil>)"

text \<open>A file system with the one file \<open>data.txt\<close>, read without error.\<close>

definition oneFile :: "string list \<Rightarrow> filesystem" where
  "oneFile texts =
     (\<lambda>name. if name = ''data.txt'' then Inr \<lparr>scanLines = texts, scanErr = None\<rparr>
             else Inl ''no such file or directory'')"

text \<open>
  A machine on which \<open>data.txt\<close> holds the given lines, \<open>TERM\<close> has the given value
  and the plotting, image and terminal libraries succeed.
\<close>

definition sampleWorld :: "string list \<Rightarrow> string option \<Rightarrow> real world" where
  "sampleWorld texts term =
     \<lparr>ParseFloat = parseDecimal, ofInt = of_int, toInt = truncReal,
      files = oneFile texts,
      environ = (\<lambda>key. if key = ''TERM'' then term else None),
      NewLine = (\<lambda>pts. None), NewScatter = (\<lambda>pts. None),
      Save = (\<lambda>a b file. None),
      OpenImage = (\<lambda>file. None), Decode = (\<lambda>file. None),
      Encode = (\<lambda>a b file. None)\<rparr>"

definition sampleConfig :: "int \<Rightarrow> int \<Rightarrow> real \<Rightarrow> real Config" where
  "sampleConfig a b s =
     \<lparr>Width = a, Height = b, Scale = s, Input = ''data.txt'', LineWidth = 1,
      Colors = defaultColors\<rparr>"

section \<open>Properties of \<open>parseLine\<close>\<close>

lemma index_in_range: "i < length xs \<Longrightarrow> index xs i = Done (xs ! i)"
  by (simp add: index_def)

lemma parseLine_one_field:
  "Fields line = [f] \<Longrightarrow>
   parseLine pf line i =
     (case pf f of
        None \<Rightarrow> Done (Inl (InvalidValue AxisY f))
      | Some y \<Rightarrow> Done (Inr \<lparr>X = i, Y = y\<rparr>))"
  by (simp add: parseLine_def index_def)

lemma parseLine_two_fields:
  "Fields line = [f0, f1] \<Longrightarrow>
   parseLine pf line i =
     (case pf f0 of
        None \<Rightarrow> Done (Inl (InvalidValue AxisX f0))
      | Some x \<Rightarrow>
          (case pf f1 of
             None \<Rightarrow> Done (Inl (InvalidValue AxisY f1))
           | Some y \<Rightarrow> Done (Inr \<lparr>X = x, Y = y\<rparr>)))"
  by (simp add: parseLine_def index_def split: option.split)

lemma parseLine_other:
  "length (Fields line) \<noteq> 1 \<Longrightarrow> length (Fields line) \<noteq> 2 \<Longrightarrow>
   parseLine pf line i = Done (Inl (UnsupportedFormat (length (Fields line))))"
  by (simp add: parseLine_def)

lemma fields_cases:
  obtains (one) f where "Fields line = [f]"
  | (two) f0 f1 where "Fields line = [f0, f1]"
  | (other) "length (Fields line) \<noteq> 1" "length (Fields line) \<noteq> 2"
proof (cases "length (Fields line) = 1")
  case True
  then show ?thesis using one by (auto simp: length_Suc_conv)
next
  case False
  show ?thesis
  proof (cases "length (Fields line) = 2")
    case True
    then show ?thesis using two by (auto simp: length_Suc_conv numeral_2_eq_2)
  next
    case two': False
    from False two' show ?thesis by (rule other)
  qed
qed

lemma parseLine_done: "\<exists>r. parseLine pf line i = Done r"
proof (cases line rule: fields_cases)
  case one
  then show ?thesis by (simp add: parseLine_one_field split: option.split)
next
  case two
  then show ?thesis by (simp add: parseLine_two_fields split: option.split)
next
  case other
  then show ?thesis by (simp add: parseLine_other)
qed

text \<open>
  C1. For every line and every \<open>lineIndex\<close>: when the split of the line on white
  space is one field that \<open>ParseFloat\<close> reads as \<open>y\<close>, \<open>parseLine\<close> returns the point
  with \<open>X = lineIndex\<close> and \<open>Y = y\<close>; when it is two fields that \<open>ParseFloat\<close> reads as
  \<open>x\<close> and \<open>y\<close>, \<open>parseLine\<close> returns the point with \<open>X = x\<close> and \<open>Y = y\<close>. (The line need
  not be trimmed for this.)
\<close>

theorem parseLine_points:
  "(Fields line = [f] \<longrightarrow> pf f = Some y \<longrightarrow>
      parseLine pf line i = Done (Inr \<lparr>X = i, Y = y\<rparr>)) \<and>
   (Fields line = [f0, f1] \<longrightarrow> pf f0 = Some x0 \<longrightarrow> pf f1 = Some y1 \<longrightarrow>
      parseLine pf line i = Done (Inr \<lparr>X = x0, Y = y1\<rparr>))"
  by (simp add: parseLine_one_field parseLine_two_fields)

theorem parseLine_points_witness:
  "Fields ''10'' = [''10''] \<and> parseDecimal ''10'' = Some 10 \<and>
   parseLine parseDecimal ''10'' 7 = Done (Inr \<lparr>X = 7, Y = 10\<rparr>) \<and>
   Fields ''1 2'' = [''1'', ''2''] \<and> parseDecimal ''1'' = Some 1 \<and> parseDecimal ''2'' = Some 2 \<and>
   parseLine parseDecimal ''1 2'' 7 = Done (Inr \<lparr>X = 1, Y = 2\<rparr>)"
proof -
  have a: "Fields ''10'' = [''10'']" by code_simp
  have b: "parseDecimal ''10'' = Some 10" by code_simp
  have c: "Fields ''1 2'' = [''1'', ''2'']" by code_simp
  have d: "parseDecimal ''1'' = Some 1" by code_simp
  have e: "parseDecimal ''2'' = Some 2" by code_simp
  show ?thesis
    using a b c d e
      parseLine_points [where line = "''10''" and f = "''10''" and pf = parseDecimal
        and y = 10 and i = 7]
      parseLine_points [where line = "''1 2''" and ?f0.0 = "''1''" and ?f1.0 = "''2''"
        and pf = parseDecimal and ?x0.0 = 1 and ?y1.0 = 2 and i = 7]
    by simp
qed

lemma parseLine_fails_iff:
  "(\<exists>e. parseLine pf line i = Done (Inl e)) \<longleftrightarrow>
     (length (Fields line) = 0 \<or> 3 \<le> length (Fields line) \<or>
      (\<exists>f \<in> set (Fields line). pf f = None))"
proof (cases line rule: fields_cases)
  case one
  then show ?thesis by (auto simp: parseLine_one_field split: option.split)
next
  case two
  then show ?thesis by (auto simp: parseLine_two_fields split: option.split)
next
  case other
  then have "length (Fields line) = 0 \<or> 3 \<le> length (Fields line)" by arith
  with other show ?thesis by (auto simp: parseLine_other)
qed

lemma parseLine_succeeds_iff:
  "(\<exists>point. parseLine pf line i = Done (Inr point)) \<longleftrightarrow>
     \<not> (length (Fields line) = 0 \<or> 3 \<le> length (Fields line) \<or>
        (\<exists>f \<in> set (Fields line). pf f = None))"
proof (cases line rule: fields_cases)
  case one
  then show ?thesis by (auto simp: parseLine_one_field split: option.split)
next
  case two
  then show ?thesis by (auto simp: parseLine_two_fields split: option.split)
next
  case other
  then have "length (Fields line) = 0 \<or> 3 \<le> length (Fields line)" by arith
  with other show ?thesis by (auto simp: parseLine_other)
qed

text \<open>
  C2. \<open>parseLine\<close> fails in these cases and in no other: on no field, or on three
  fields or more, with \<open>UnsupportedFormat\<close> and the number of fields; on one field
  that \<open>ParseFloat\<close> rejects, with \<open>InvalidValue\<close> for Y; on two fields of which
  \<open>ParseFloat\<close> rejects the first, with \<open>InvalidValue\<close> for X, or accepts the first
  and rejects the second, with \<open>InvalidValue\<close> for Y. In every other case it returns
  a point.
\<close>

theorem parseLine_failures:
  "(length (Fields line) = 0 \<or> 3 \<le> length (Fields line) \<longrightarrow>
      parseLine pf line i = Done (Inl (UnsupportedFormat (length (Fields line))))) \<and>
   (Fields line = [f] \<longrightarrow> pf f = None \<longrightarrow>
      parseLine pf line i = Done (Inl (InvalidValue AxisY f))) \<and>
   (Fields line = [f0, f1] \<longrightarrow> pf f0 = None \<longrightarrow>
      parseLine pf line i = Done (Inl (InvalidValue AxisX f0))) \<and>
   (Fields line = [f0, f1] \<longrightarrow> pf f0 = Some x0 \<longrightarrow> pf f1 = None \<longrightarrow>
      parseLine pf line i = Done (Inl (InvalidValue AxisY f1))) \<and>
   ((\<exists>e. parseLine pf line i = Done (Inl e)) \<longleftrightarrow>
      (length (Fields line) = 0 \<or> 3 \<le> length (Fields line) \<or>
       (\<exists>f \<in> set (Fields line). pf f = None))) \<and>
   ((\<exists>point. parseLine pf line i = Done (Inr point)) \<longleftrightarrow>
      \<not> (length (Fields line) = 0 \<or> 3 \<le> length (Fields line) \<or>
         (\<exists>f \<in> set (Fields line). pf f = None)))"
proof (intro conjI impI)
  assume "length (Fields line) = 0 \<or> 3 \<le> length (Fields line)"
  then show "parseLine pf line i = Done (Inl (UnsupportedFormat (length (Fields line))))"
    by (intro parseLine_other) auto
qed (simp_all add: parseLine_one_field parseLine_two_fields parseLine_fails_iff
    parseLine_succeeds_iff)

theorem parseLine_failures_witness:
  "parseLine parseDecimal '''' (0 :: real) = Done (Inl (UnsupportedFormat 0)) \<and>
   parseLine parseDecimal ''bad line here'' (0 :: real) = Done (Inl (UnsupportedFormat 3)) \<and>
   parseLine parseDecimal ''x'' (0 :: real) = Done (Inl (InvalidValue AxisY ''x'')) \<and>
   parseLine parseDecimal ''x 2'' (0 :: real) = Done (Inl (InvalidValue AxisX ''x'')) \<and>
   parseLine parseDecimal ''1 y'' (0 :: real) = Done (Inl (InvalidValue AxisY ''y'')) \<and>
   (\<exists>point. parseLine parseDecimal ''1 2'' (0 :: real) = Done (Inr point))"
proof -
  have f0: "Fields '''' = []" by code_simp
  have f3: "Fields ''bad line here'' = [''bad'', ''line'', ''here'']" by code_simp
  have f1: "Fields ''x'' = [''x'']" by code_simp
  have f2: "Fields ''x 2'' = [''x'', ''2'']" by code_simp
  have f2': "Fields ''1 y'' = [''1'', ''y'']" by code_simp
  have f2'': "Fields ''1 2'' = [''1'', ''2'']" by code_simp
  have p: "parseDecimal ''x'' = None" "parseDecimal ''y'' = None"
    "parseDecimal ''1'' = Some 1" "parseDecimal ''2'' = Some 2" by code_simp+
  show ?thesis
    using f0 f3 f1 f2 f2' f2'' p
      parseLine_failures [where line = "''''" and pf = parseDecimal and i = "0 :: real"]
      parseLine_failures [where line = "''bad line here''" and pf = parseDecimal
        and i = "0 :: real"]
      parseLine_failures [where line = "''x''" and pf = parseDecimal and i = "0 :: real"
        and f = "''x''"]
      parseLine_failures [where line = "''x 2''" and pf = parseDecimal and i = "0 :: real"
        and ?f0.0 = "''x''" and ?f1.0 = "''2''"]
      parseLine_failures [where line = "''1 y''" and pf = parseDecimal and i = "0 :: real"
        and ?f0.0 = "''1''" and ?f1.0 = "''y''" and ?x0.0 = 1]
      parseLine_failures [where line = "''1 2''" and pf = parseDecimal and i = "0 :: real"]
    by simp
qed

section \<open>The loop of \<open>readData\<close> does not panic\<close>

lemma ignored_eq:
  "ignored line = Done (case line of [] \<Rightarrow> True | c # cs \<Rightarrow> c = CHR ''#'' \<or> c = CHR ''%'')"
  by (cases line) (simp_all add: ignored_def orElse_def byteIs_def index_def)

lemma readData_body_done: "\<exists>vars'. snd (readData_body pf filename raw vars) = Done vars'"
proof -
  obtain r where r: "parseLine pf (TrimSpace raw) (snd vars) = Done r"
    using parseLine_done [of pf "TrimSpace raw" "snd vars"] by blast
  then show ?thesis
    by (cases vars; cases r)
      (simp_all add: readData_body_def ignored_eq Let_def split: bool.split list.split)
qed

lemma readData_loop_done: "\<exists>vars'. snd (readData_loop pf filename raws vars) = Done vars'"
proof (induction raws arbitrary: vars)
  case Nil
  show ?case by simp
next
  case (Cons raw rest)
  obtain evs vars1 where b: "readData_body pf filename raw vars = (evs, Done vars1)"
    using readData_body_done [of pf filename raw vars] by (metis prod.collapse)
  obtain vars2 where "snd (readData_loop pf filename rest vars1) = Done vars2"
    using Cons.IH [of vars1] by blast
  with b show ?case by (cases "readData_loop pf filename rest vars1") auto
qed

lemma readData_done: "\<exists>r. snd (readData pf fs filename) = Done r"
proof (cases "fs filename")
  case (Inl err)
  then show ?thesis by (simp add: readData_def)
next
  case (Inr sc)
  obtain vars' where "snd (readData_loop pf filename (scanLines sc) ([], 0)) = Done vars'"
    using readData_loop_done [of pf filename "scanLines sc" "([], 0)"] by blast
  with Inr show ?thesis
    by (cases vars') (auto simp: readData_def split: prod.split option.split checked.split)
qed

text \<open>
  C10. In \<open>readData\<close> the access \<open>line[0]\<close> of the comment check is in bounds. On the
  empty line the test \<open>line == ""\<close> decides and \<open>line[0]\<close>, which would panic there,
  is not evaluated; on a line that is not empty \<open>line[0]\<close> is its first byte. So the
  check, one iteration of the loop on any line, the loop on any lines and \<open>readData\<close>
  on any file system end without a panic.
\<close>

theorem readData_never_panics:
  "ignored [] = Done True \<and>
   byteIs [] 0 c = Panic (IndexOutOfRange 0 0) \<and>
   ignored (b # bs) = Done (b = CHR ''#'' \<or> b = CHR ''%'') \<and>
   (\<exists>r. ignored (TrimSpace raw) = Done r) \<and>
   (\<exists>vars'. snd (readData_body pf filename raw vars) = Done vars') \<and>
   (\<exists>vars'. snd (readData_loop pf filename raws vars) = Done vars') \<and>
   (\<exists>r. snd (readData pf fs filename) = Done r)"
  using readData_body_done [of pf filename raw vars]
    readData_loop_done [of pf filename raws vars] readData_done [of pf fs filename]
  by (simp add: ignored_eq byteIs_def index_def)

theorem readData_never_panics_witness:
  "byteIs [] 0 (CHR ''#'') = Panic (IndexOutOfRange 0 0) \<and>
   ignored ''#x'' = Done True \<and>
   (\<exists>r. snd (readData parseDecimal (oneFile ['''', ''  '', ''#'', ''x'', ''5'']) ''data.txt'')
      = Done (r :: read_error + real Point list))"
  using readData_never_panics [where c = "CHR ''#''" and b = "CHR ''#''" and bs = "''x''"
      and pf = parseDecimal and fs = "oneFile ['''', ''  '', ''#'', ''x'', ''5'']"
      and filename = "''data.txt''"]
  by simp

section \<open>Properties of \<open>TrimSpace\<close> and \<open>Fields\<close>\<close>

lemma dropWhile_all_iff: "(\<forall>x\<in>set (dropWhile P xs). P x) \<longleftrightarrow> (\<forall>x\<in>set xs. P x)"
proof
  assume a: "\<forall>x\<in>set (dropWhile P xs). P x"
  have "dropWhile P xs = []"
  proof (rule ccontr)
    assume n: "dropWhile P xs \<noteq> []"
    then have "\<not> P (hd (dropWhile P xs))" by (rule hd_dropWhile)
    moreover have "hd (dropWhile P xs) \<in> set (dropWhile P xs)" using n by simp
    ultimately show False using a by blast
  qed
  then show "\<forall>x\<in>set xs. P x" by (simp add: dropWhile_eq_Nil_conv)
next
  assume "\<forall>x\<in>set xs. P x"
  then show "\<forall>x\<in>set (dropWhile P xs). P x" by (meson set_dropWhileD)
qed

lemma rev_dropWhile_takeWhile:
  "rev (dropWhile P (rev xs)) @ rev (takeWhile P (rev xs)) = xs"
  by (metis rev_append rev_rev_ident takeWhile_dropWhile_id)

lemma TrimSpace_Nil_iff: "TrimSpace s = [] \<longleftrightarrow> (\<forall>c\<in>set s. isSpace c)"
  by (simp add: TrimSpace_def dropWhile_eq_Nil_conv dropWhile_all_iff)

lemma TrimSpace_decomp:
  "\<exists>pre post. s = pre @ TrimSpace s @ post \<and> (\<forall>d\<in>set pre. isSpace d) \<and> (\<forall>d\<in>set post. isSpace d)"
proof -
  define d where "d = dropWhile isSpace s"
  define pre where "pre = takeWhile isSpace s"
  define post where "post = rev (takeWhile isSpace (rev d))"
  have d: "d = TrimSpace s @ post"
    by (simp add: TrimSpace_def post_def d_def rev_dropWhile_takeWhile)
  have "s = pre @ d" by (simp add: pre_def d_def)
  with d have "s = pre @ TrimSpace s @ post" by simp
  moreover have "\<forall>c\<in>set pre. isSpace c" by (auto simp: pre_def dest: set_takeWhileD)
  moreover have "\<forall>c\<in>set post. isSpace c" by (auto simp: post_def dest: set_takeWhileD)
  ultimately show ?thesis by blast
qed

lemma TrimSpace_hd: "TrimSpace s = c # cs \<Longrightarrow> \<not> isSpace c"
proof -
  assume t: "TrimSpace s = c # cs"
  define d where "d = dropWhile isSpace s"
  have "d = TrimSpace s @ rev (takeWhile isSpace (rev d))"
    by (simp add: TrimSpace_def d_def rev_dropWhile_takeWhile)
  with t have dc: "d = c # cs @ rev (takeWhile isSpace (rev d))" by simp
  then have "d \<noteq> []" by auto
  then have "\<not> isSpace (hd d)" unfolding d_def by (rule hd_dropWhile)
  moreover have "hd d = c" using dc by (metis list.sel(1))
  ultimately show ?thesis by simp
qed

lemma fieldsFrom_spaces:
  "\<forall>c\<in>set s. isSpace c \<Longrightarrow> fieldsFrom w s = (if w = [] then [] else [w])"
  by (induction s arbitrary: w) auto

lemma fieldsFrom_append_spaces:
  "\<forall>c\<in>set t. isSpace c \<Longrightarrow> fieldsFrom w (s @ t) = fieldsFrom w s"
  by (induction s arbitrary: w) (auto simp: fieldsFrom_spaces)

lemma fieldsFrom_prepend_spaces:
  "\<forall>c\<in>set pre. isSpace c \<Longrightarrow> fieldsFrom [] (pre @ s) = fieldsFrom [] s"
  by (induction pre) auto

lemma Fields_TrimSpace: "Fields (TrimSpace s) = Fields s"
proof -
  obtain pre post where "s = pre @ TrimSpace s @ post" "\<forall>d\<in>set pre. isSpace d"
    "\<forall>d\<in>set post. isSpace d"
    using TrimSpace_decomp [of s] by blast
  then have "Fields s = fieldsFrom [] (pre @ (TrimSpace s @ post))" by (simp add: Fields_def)
  also have "\<dots> = fieldsFrom [] (TrimSpace s @ post)"
    using \<open>\<forall>d\<in>set pre. isSpace d\<close> by (rule fieldsFrom_prepend_spaces)
  also have "\<dots> = fieldsFrom [] (TrimSpace s)"
    using \<open>\<forall>d\<in>set post. isSpace d\<close> by (rule fieldsFrom_append_spaces)
  finally show ?thesis by (simp add: Fields_def)
qed

lemma fieldsFrom_Nil_iff: "fieldsFrom w s = [] \<longleftrightarrow> w = [] \<and> (\<forall>c\<in>set s. isSpace c)"
  by (induction s arbitrary: w) auto

lemma Fields_Nil_iff: "Fields s = [] \<longleftrightarrow> (\<forall>c\<in>set s. isSpace c)"
  by (simp add: Fields_def fieldsFrom_Nil_iff)

lemma fieldsFrom_open:
  "w \<noteq> [] \<Longrightarrow>
   fieldsFrom w s =
     (w @ takeWhile (\<lambda>c. \<not> isSpace c) s) # fieldsFrom [] (dropWhile (\<lambda>c. \<not> isSpace c) s)"
  by (induction s arbitrary: w) auto

lemma Fields_Cons:
  "\<not> isSpace c \<Longrightarrow>
   Fields (c # cs) =
     (c # takeWhile (\<lambda>c. \<not> isSpace c) cs) # Fields (dropWhile (\<lambda>c. \<not> isSpace c) cs)"
  by (simp add: Fields_def fieldsFrom_open)

lemma Fields_of_TrimSpace_Cons:
  "TrimSpace s = c # cs \<Longrightarrow> \<exists>f fs. Fields s = (c # f) # fs"
proof -
  assume t: "TrimSpace s = c # cs"
  then have "\<not> isSpace c" by (rule TrimSpace_hd)
  then have "Fields (c # cs) =
     (c # takeWhile (\<lambda>c. \<not> isSpace c) cs) # Fields (dropWhile (\<lambda>c. \<not> isSpace c) cs)"
    by (rule Fields_Cons)
  moreover have "Fields s = Fields (c # cs)" using t Fields_TrimSpace [of s] by simp
  ultimately show ?thesis by simp
qed

section \<open>Classification of lines in \<open>readData\<close>\<close>

lemma readData_body_eq:
  "readData_body pf filename raw (points, i) =
     (if isBlankOrComment raw then ([], Done (points, i))
      else case parseLine pf (TrimSpace raw) i of
        Panic p \<Rightarrow> ([], Panic p)
      | Done (Inl err) \<Rightarrow> ([LogSkipping (i + 1) filename err], Done (points, i))
      | Done (Inr point) \<Rightarrow> ([], Done (points @ [point], i + 1)))"
  by (simp add: readData_body_def ignored_eq isBlankOrComment_def Let_def
      split: list.split bool.split)

lemma isBlankOrComment_blank: "\<forall>c\<in>set raw. isSpace c \<Longrightarrow> isBlankOrComment raw"
  by (simp add: isBlankOrComment_def TrimSpace_Nil_iff [symmetric])

text \<open>
  C6. \<open>readData\<close> classifies a line after trimming it. The check of the source
  decides \<open>isBlankOrComment\<close>. A line of white space only is blank: the iteration
  changes nothing and logs nothing, although \<open>parseLine\<close> on such a line would fail
  with \<open>UnsupportedFormat 0\<close>. The first byte of a trimmed line is not white space,
  and the line is a comment exactly when that byte is \<open>#\<close> or \<open>%\<close>: two lines with
  the same first byte after trimming are classified alike, whatever follows. A
  blank line or a comment is skipped; any other line goes to \<open>parseLine\<close>.
\<close>

theorem line_classification:
  "ignored (TrimSpace raw) = Done (isBlankOrComment raw) \<and>
   ((\<forall>c\<in>set raw. isSpace c) \<longrightarrow>
      isBlankOrComment raw \<and> readData_body pf filename raw vars = ([], Done vars) \<and>
      parseLine pf raw i = Done (Inl (UnsupportedFormat 0))) \<and>
   (TrimSpace raw = c # cs \<longrightarrow>
      \<not> isSpace c \<and> (isBlankOrComment raw \<longleftrightarrow> c = CHR ''#'' \<or> c = CHR ''%'')) \<and>
   (TrimSpace raw = c # cs \<longrightarrow> TrimSpace raw' = c # cs' \<longrightarrow>
      isBlankOrComment raw = isBlankOrComment raw') \<and>
   (isBlankOrComment raw \<longrightarrow> readData_body pf filename raw vars = ([], Done vars)) \<and>
   (\<not> isBlankOrComment raw \<longrightarrow>
      readData_body pf filename raw (points, i) =
        (case parseLine pf (TrimSpace raw) i of
           Panic p \<Rightarrow> ([], Panic p)
         | Done (Inl err) \<Rightarrow> ([LogSkipping (i + 1) filename err], Done (points, i))
         | Done (Inr point) \<Rightarrow> ([], Done (points @ [point], i + 1))))"
proof (intro conjI impI)
  show "ignored (TrimSpace raw) = Done (isBlankOrComment raw)"
    by (simp add: ignored_eq isBlankOrComment_def)
next
  assume b: "\<forall>c\<in>set raw. isSpace c"
  then show "isBlankOrComment raw" by (rule isBlankOrComment_blank)
  then show "readData_body pf filename raw vars = ([], Done vars)"
    by (cases vars) (simp add: readData_body_eq)
  from b have "Fields raw = []" by (simp add: Fields_Nil_iff)
  then show "parseLine pf raw i = Done (Inl (UnsupportedFormat 0))"
    by (simp add: parseLine_def)
next
  assume "TrimSpace raw = c # cs"
  then show "\<not> isSpace c" by (rule TrimSpace_hd)
next
  assume "TrimSpace raw = c # cs"
  then show "isBlankOrComment raw \<longleftrightarrow> c = CHR ''#'' \<or> c = CHR ''%''"
    by (simp add: isBlankOrComment_def)
next
  assume "TrimSpace raw = c # cs" "TrimSpace raw' = c # cs'"
  then show "isBlankOrComment raw = isBlankOrComment raw'"
    by (simp add: isBlankOrComment_def)
next
  assume "isBlankOrComment raw"
  then show "readData_body pf filename raw vars = ([], Done vars)"
    by (cases vars) (simp add: readData_body_eq)
next
  assume "\<not> isBlankOrComment raw"
  then show "readData_body pf filename raw (points, i) =
        (case parseLine pf (TrimSpace raw) i of
           Panic p \<Rightarrow> ([], Panic p)
         | Done (Inl err) \<Rightarrow> ([LogSkipping (i + 1) filename err], Done (points, i))
         | Done (Inr point) \<Rightarrow> ([], Done (points @ [point], i + 1)))"
    by (simp add: readData_body_eq)
qed

theorem line_classification_witness:
  "readData_body parseDecimal ''data.txt'' [CHR 0x09, CHR '' '', CHR 0x0D] ([], 0)
     = ([], Done ([], 0)) \<and>
   TrimSpace ''  % 5'' = ''% 5'' \<and>
   readData_body parseDecimal ''data.txt'' ''  % 5'' ([], 0) = ([], Done ([], 0)) \<and>
   TrimSpace '' 5 # 6 '' = ''5 # 6'' \<and>
   \<not> isBlankOrComment '' 5 # 6 '' \<and>
   readData_body parseDecimal ''data.txt'' '' 5 # 6 '' ([], 0)
     = ([LogSkipping 1 ''data.txt'' (UnsupportedFormat 3)], Done ([], 0))"
proof -
  have sp: "\<forall>c\<in>set [CHR 0x09, CHR '' '', CHR 0x0D]. isSpace c" by (simp add: isSpace_def)
  have t1: "TrimSpace ''  % 5'' = ''% 5''" by code_simp
  have t2: "TrimSpace '' 5 # 6 '' = ''5 # 6''" by code_simp
  have p: "parseLine parseDecimal ''5 # 6'' (0 :: real) = Done (Inl (UnsupportedFormat 3))"
    by code_simp
  show ?thesis
    using sp t1 t2 p
      line_classification [where raw = "[CHR 0x09, CHR '' '', CHR 0x0D]" and pf = parseDecimal
        and filename = "''data.txt''" and vars = "([], 0)"]
      line_classification [where raw = "''  % 5''" and c = "CHR ''%''" and cs = "'' 5''"
        and pf = parseDecimal and filename = "''data.txt''" and vars = "([], 0)"]
      line_classification [where raw = "'' 5 # 6 ''" and c = "CHR ''5''" and cs = "'' # 6''"
        and pf = parseDecimal and filename = "''data.txt''" and points = "[]" and i = 0]
    by simp
qed

section \<open>The loop of \<open>readData\<close> and the specification's ingestion\<close>

lemma counter_Suc: "counter (Suc n) = counter n + 1"
  by (simp add: counter_def)

lemma counter_0: "counter 0 = 0"
  by (simp add: counter_def)

lemma parses_iff: "parses pf line \<longleftrightarrow> (\<exists>point. parseLine pf line i = Done (Inr point))"
proof -
  have "parses pf line \<longleftrightarrow> (\<exists>point. parseLine pf line 0 = Done (Inr point))"
    by (auto simp: parses_def split: checked.splits sum.splits)
  then show ?thesis by (simp add: parseLine_succeeds_iff)
qed

lemma not_parses_iff: "\<not> parses pf line \<longleftrightarrow> (\<exists>err. parseLine pf line i = Done (Inl err))"
proof -
  obtain r where "parseLine pf line i = Done r" using parseLine_done [of pf line i] by blast
  then show ?thesis by (cases r) (auto simp: parses_iff [of pf line i])
qed

lemma dataLines_Nil: "dataLines [] = []"
  by (simp add: dataLines_def)

lemma dataLines_Cons:
  "dataLines (raw # raws) =
     (if isBlankOrComment raw then dataLines raws else TrimSpace raw # dataLines raws)"
  by (simp add: dataLines_def)

lemma parseLine_error_any_index:
  "parseLine pf line i = Done (Inl err) \<Longrightarrow> parseLine pf line j = Done (Inl err)"
proof (cases line rule: fields_cases)
  case one
  then show "parseLine pf line i = Done (Inl err) \<Longrightarrow> ?thesis"
    by (auto simp: parseLine_one_field split: option.splits)
next
  case two
  then show "parseLine pf line i = Done (Inl err) \<Longrightarrow> ?thesis"
    by (auto simp: parseLine_two_fields split: option.splits)
next
  case other
  then show "parseLine pf line i = Done (Inl err) \<Longrightarrow> ?thesis"
    by (simp add: parseLine_other)
qed

lemma lineError_eq: "parseLine pf line i = Done (Inl err) \<Longrightarrow> lineError pf line = [err]"
  using parseLine_error_any_index [of pf line i err 0] by (simp add: lineError_def)

lemma readData_loop_spec:
  "\<exists>evs. readData_loop pf filename raws (points, counter n) =
      (evs, Done (points @ concat (map (pointAt pf) (enumerate n (filter (parses pf) (dataLines raws)))),
                  counter (n + length (filter (parses pf) (dataLines raws))))) \<and>
      list_all (isLogSkipping filename) evs \<and>
      concat (map skippedError evs) = concat (map (lineError pf) (malformedLines pf raws)) \<and>
      length evs = length (malformedLines pf raws)"
proof (induction raws arbitrary: points n)
  case Nil
  show ?case by (simp add: dataLines_Nil malformedLines_def)
next
  case (Cons raw raws)
  show ?case
  proof (cases "isBlankOrComment raw")
    case True
    with Cons.IH [of points n] show ?thesis
      by (auto simp: readData_body_eq dataLines_Cons malformedLines_def)
  next
    case False
    obtain r where r: "parseLine pf (TrimSpace raw) (counter n) = Done r"
      using parseLine_done [of pf "TrimSpace raw" "counter n"] by blast
    show ?thesis
    proof (cases r)
      case (Inl err)
      with r have np: "\<not> parses pf (TrimSpace raw)"
        using not_parses_iff [of pf "TrimSpace raw" "counter n"] by simp
      from r Inl have le: "lineError pf (TrimSpace raw) = [err]"
        using lineError_eq [of pf "TrimSpace raw" "counter n" err] by simp
      with Cons.IH [of points n] False r Inl np show ?thesis
        by (auto simp: readData_body_eq dataLines_Cons malformedLines_def)
    next
      case (Inr point)
      with r have p: "parses pf (TrimSpace raw)"
        using parses_iff [of pf "TrimSpace raw" "counter n"] by simp
      from r Inr have pa: "pointAt pf (n, TrimSpace raw) = [point]"
        by (simp add: pointAt_def)
      from Cons.IH [of "points @ [point]" "Suc n"] False r Inr p pa show ?thesis
        by (auto simp: readData_body_eq dataLines_Cons malformedLines_def counter_Suc)
    qed
  qed
qed


lemma length_pointAt:
  "\<forall>line\<in>set ls. parses pf line \<Longrightarrow>
   length (concat (map (pointAt pf) (enumerate n ls))) = length ls"
proof (induction ls arbitrary: n)
  case Nil
  show ?case by simp
next
  case (Cons line ls)
  then have "parses pf line" by simp
  then obtain point where "parseLine pf line (counter n) = Done (Inr point)"
    using parses_iff [of pf line "counter n"] by blast
  then have "pointAt pf (n, line) = [point]" by (simp add: pointAt_def)
  with Cons show ?case by simp
qed

lemma length_parsedPoints:
  "length (parsedPoints pf raws) = length (filter (parses pf) (dataLines raws))"
  by (simp add: parsedPoints_def length_pointAt)

lemma readData_loop_from_start:
  "\<exists>evs. readData_loop pf filename raws ([], 0) =
      (evs, Done (parsedPoints pf raws, counter (length (parsedPoints pf raws)))) \<and>
      list_all (isLogSkipping filename) evs \<and>
      concat (map skippedError evs) = concat (map (lineError pf) (malformedLines pf raws)) \<and>
      length evs = length (malformedLines pf raws)"
  using readData_loop_spec [of pf filename raws "[]" 0]
  by (simp add: counter_0 parsedPoints_def length_parsedPoints [unfolded parsedPoints_def])

section \<open>The loop of \<open>readDataFromFile\<close>\<close>

lemma readDataFromFile_body_eq:
  "readDataFromFile_body pf line (points, i, n) =
     (if HasPrefix line ''#'' \<or> HasPrefix line ''%'' \<or> HasPrefix line ''/''
      then ([], Done (points, i, Suc n))
      else case Fields line of
        [] \<Rightarrow> ([], Done (points, i, Suc n))
      | [f] \<Rightarrow>
          (case pf f of
             None \<Rightarrow> ([PrintParsingError (Suc n) line], Done (points, i, Suc n))
           | Some y \<Rightarrow> ([], Done (points @ [\<lparr>X = i, Y = y\<rparr>], i + 1, Suc n)))
      | f0 # f1 # fs \<Rightarrow>
          (case pf f0 of
             None \<Rightarrow> ([PrintParsingError (Suc n) line], Done (points, i, Suc n))
           | Some x \<Rightarrow>
               (case pf f1 of
                  None \<Rightarrow> ([PrintParsingError (Suc n) line], Done (points, i, Suc n))
                | Some y \<Rightarrow> ([], Done (points @ [\<lparr>X = x, Y = y\<rparr>], i + 1, Suc n)))))"
proof (cases "Fields line")
  case Nil
  then show ?thesis by (simp add: readDataFromFile_body_def Let_def)
next
  case (Cons f0 rest)
  show ?thesis
  proof (cases rest)
    case Nil
    with Cons show ?thesis
      by (simp add: readDataFromFile_body_def index_def Let_def split: option.split)
  next
    case (Cons f1 fs)
    with \<open>Fields line = f0 # rest\<close> show ?thesis
      by (simp add: readDataFromFile_body_def index_def Let_def split: option.split)
  qed
qed

lemma readDataFromFile_body_step:
  "\<exists>evs points' i'. readDataFromFile_body pf line (points, i, n) = (evs, Done (points', i', Suc n)) \<and>
     ((points' = points \<and> i' = i) \<or> (\<exists>point. points' = points @ [point] \<and> i' = i + 1 \<and> evs = []))"
  by (simp add: readDataFromFile_body_eq split: list.split option.split)

lemma readDataFromFile_loop_counter:
  "\<exists>evs points'. readDataFromFile_loop pf raws (points, counter (length points), n) =
     (evs, Done (points', counter (length points'), n + length raws))"
proof (induction raws arbitrary: points n)
  case Nil
  show ?case by simp
next
  case (Cons raw raws)
  obtain evs points1 i1 where
    b: "readDataFromFile_body pf raw (points, counter (length points), n) = (evs, Done (points1, i1, Suc n))"
    and c: "(points1 = points \<and> i1 = counter (length points)) \<or>
      (\<exists>point. points1 = points @ [point] \<and> i1 = counter (length points) + 1 \<and> evs = [])"
    using readDataFromFile_body_step [of pf raw points "counter (length points)" n] by blast
  from c have "i1 = counter (length points1)" by (auto simp: counter_Suc)
  with b Cons.IH [of points1 "Suc n"] show ?case by auto
qed

lemma readDataFromFile_loop_from_start:
  "\<exists>evs points. readDataFromFile_loop pf raws ([], 0, 0) =
     (evs, Done (points, counter (length points), length raws))"
  using readDataFromFile_loop_counter [of pf raws "[]" 0] by (simp add: counter_0)

lemma readDataFromFile_opened:
  "fs filename = Inr sc \<Longrightarrow>
   \<exists>evs points. readDataFromFile pf fs filename =
      (evs, Done (case scanErr sc of Some err \<Rightarrow> Inl (ErrorReadingFile err) | None \<Rightarrow> Inr points))"
proof -
  assume o: "fs filename = Inr sc"
  obtain evs points where
    "readDataFromFile_loop pf (scanLines sc) ([], 0, 0) =
       (evs, Done (points, counter (length points), length (scanLines sc)))"
    using readDataFromFile_loop_from_start [of pf "scanLines sc"] by blast
  with o show ?thesis by (auto simp: readDataFromFile_def split: option.split)
qed

section \<open>The counter and the malformed lines\<close>

lemma readData_opened:
  "fs filename = Inr sc \<Longrightarrow>
   \<exists>evs. readData pf fs filename =
      (evs, Done (case scanErr sc of
                    Some err \<Rightarrow> Inl (ScanFile err)
                  | None \<Rightarrow> Inr (parsedPoints pf (scanLines sc)))) \<and>
      list_all (isLogSkipping filename) evs \<and>
      concat (map skippedError evs) =
        concat (map (lineError pf) (malformedLines pf (scanLines sc))) \<and>
      length evs = length (malformedLines pf (scanLines sc))"
proof -
  assume o: "fs filename = Inr sc"
  obtain evs where
    "readData_loop pf filename (scanLines sc) ([], 0) =
       (evs, Done (parsedPoints pf (scanLines sc), counter (length (parsedPoints pf (scanLines sc)))))"
    "list_all (isLogSkipping filename) evs"
    "concat (map skippedError evs) =
        concat (map (lineError pf) (malformedLines pf (scanLines sc)))"
    "length evs = length (malformedLines pf (scanLines sc))"
    using readData_loop_from_start [of pf filename "scanLines sc"] by blast
  with o show ?thesis by (simp add: readData_def split: option.split)
qed

lemma take_k_spec:
  "snd (readData_loop pf filename raws ([], 0)) = Done (points, i) \<Longrightarrow> i = counter (length points)"
  using readData_loop_from_start [of pf filename raws] by auto

text \<open>
  C3. After any number of lines of the file, the counter of \<open>readData\<close> is the
  counter of the specification at the number of points appended so far: zero, plus
  \<open>1.0\<close> once for each point. An iteration on a blank line, a comment or a line that
  does not parse leaves the points and the counter as they are; an iteration on a
  line that parses appends the point and adds \<open>1.0\<close> to the counter. The same holds of
  \<open>lineNumber\<close> in \<open>readDataFromFile\<close>, whose \<open>lineCount\<close> counts every line. On the
  lines \<open># header\<close>, \<open>10\<close>, \<open>20\<close> both give the points \<open>(0, 10)\<close> and \<open>(1, 20)\<close>.
\<close>

theorem synthetic_X_counter:
  "(snd (readData_loop pf filename (take k raws) ([], 0)) = Done (points, i) \<longrightarrow>
      i = counter (length points)) \<and>
   (isBlankOrComment raw \<longrightarrow>
      snd (readData_body pf filename raw (points0, i0)) = Done (points0, i0)) \<and>
   (\<not> isBlankOrComment raw \<longrightarrow> parseLine pf (TrimSpace raw) i0 = Done (Inl err) \<longrightarrow>
      snd (readData_body pf filename raw (points0, i0)) = Done (points0, i0)) \<and>
   (\<not> isBlankOrComment raw \<longrightarrow> parseLine pf (TrimSpace raw) i0 = Done (Inr point) \<longrightarrow>
      snd (readData_body pf filename raw (points0, i0)) = Done (points0 @ [point], i0 + 1)) \<and>
   (snd (readDataFromFile_loop pf (take k raws) ([], 0, 0)) = Done (points, i, n) \<longrightarrow>
      i = counter (length points) \<and> n = length (take k raws)) \<and>
   readData parseDecimal (oneFile [''# header'', ''10'', ''20'']) ''data.txt''
     = ([], Done (Inr [\<lparr>X = 0, Y = 10\<rparr>, \<lparr>X = 1, Y = 20\<rparr>])) \<and>
   readDataFromFile parseDecimal (oneFile [''# header'', ''10'', ''20'']) ''data.txt''
     = ([], Done (Inr [\<lparr>X = 0, Y = 10\<rparr>, \<lparr>X = 1, Y = 20\<rparr>]))"
proof (intro conjI impI)
  assume "snd (readData_loop pf filename (take k raws) ([], 0)) = Done (points, i)"
  then show "i = counter (length points)" by (rule take_k_spec)
next
  assume a: "snd (readDataFromFile_loop pf (take k raws) ([], 0, 0)) = Done (points, i, n)"
  with readDataFromFile_loop_from_start [of pf "take k raws"]
  show "i = counter (length points)" and "n = length (take k raws)" by auto
next
  show "readData parseDecimal (oneFile [''# header'', ''10'', ''20'']) ''data.txt''
     = ([], Done (Inr [\<lparr>X = 0, Y = 10\<rparr>, \<lparr>X = 1, Y = 20\<rparr>]))"
    by code_simp
next
  show "readDataFromFile parseDecimal (oneFile [''# header'', ''10'', ''20'']) ''data.txt''
     = ([], Done (Inr [\<lparr>X = 0, Y = 10\<rparr>, \<lparr>X = 1, Y = 20\<rparr>]))"
    by code_simp
qed (simp_all add: readData_body_eq)

theorem synthetic_X_counter_witness:
  "snd (readData_loop parseDecimal ''data.txt'' (take 2 [''# header'', ''10'', ''20'']) ([], 0))
     = Done ([\<lparr>X = 0, Y = 10\<rparr>], 1) \<and>
   (1 :: real) = counter (length [\<lparr>X = 0, Y = 10 :: real\<rparr>]) \<and>
   snd (readData_body parseDecimal ''data.txt'' ''# header'' ([], 0)) = Done ([], 0) \<and>
   snd (readData_body parseDecimal ''data.txt'' ''x'' ([], 0)) = Done ([], 0) \<and>
   snd (readData_body parseDecimal ''data.txt'' ''20'' ([\<lparr>X = 0, Y = 10\<rparr>], 1))
     = Done ([\<lparr>X = 0, Y = 10\<rparr>, \<lparr>X = 1, Y = 20\<rparr>], 2)"
proof -
  have l: "snd (readData_loop parseDecimal ''data.txt'' (take 2 [''# header'', ''10'', ''20''])
      ([], 0)) = Done ([\<lparr>X = 0, Y = 10\<rparr>], 1)"
    by code_simp
  have a: "isBlankOrComment ''# header''" by code_simp
  have b: "\<not> isBlankOrComment ''x''" "\<not> isBlankOrComment ''20''" by code_simp+
  have c: "parseLine parseDecimal (TrimSpace ''x'') (0 :: real)
      = Done (Inl (InvalidValue AxisY ''x''))" by code_simp
  have d: "parseLine parseDecimal (TrimSpace ''20'') (1 :: real)
      = Done (Inr \<lparr>X = 1, Y = 20\<rparr>)" by code_simp
  show ?thesis
    using l a b c d
      synthetic_X_counter [where pf = parseDecimal and filename = "''data.txt''" and k = 2
        and raws = "[''# header'', ''10'', ''20'']" and points = "[\<lparr>X = 0, Y = 10\<rparr>]"
        and i = 1 and raw = "''# header''" and ?points0.0 = "[]" and ?i0.0 = 0]
      synthetic_X_counter [where pf = parseDecimal and filename = "''data.txt''"
        and raw = "''x''" and ?points0.0 = "[]" and ?i0.0 = 0
        and err = "InvalidValue AxisY ''x''"]
      synthetic_X_counter [where pf = parseDecimal and filename = "''data.txt''"
        and raw = "''20''" and ?points0.0 = "[\<lparr>X = 0, Y = 10\<rparr>]" and ?i0.0 = 1
        and point = "\<lparr>X = 1, Y = 20\<rparr>"]
    by simp
qed

text \<open>
  C4. When the file opens and the scanner reports no error, \<open>readData\<close> returns no
  error, whatever the lines are: its result is the points of the data lines that
  parse, in the order of the file, one for each such line; what it logs is one
  diagnostic for each data line that does not parse, in the order of the file, each
  with the error of its line. \<open>readData\<close> returns an error only when the file does
  not open or the scanner reports one. \<open>readDataFromFile\<close> returns no error either.
  On the lines \<open>1 2\<close>, \<open>bad line here\<close>, \<open>3 4\<close> both give the points \<open>(1, 2)\<close> and
  \<open>(3, 4)\<close> and one diagnostic.
\<close>

theorem malformed_lines_skipped:
  "(fs filename = Inr sc \<longrightarrow> scanErr sc = None \<longrightarrow>
      snd (readData pf fs filename) = Done (Inr (parsedPoints pf (scanLines sc))) \<and>
      length (parsedPoints pf (scanLines sc))
        = length (filter (parses pf) (dataLines (scanLines sc))) \<and>
      list_all (isLogSkipping filename) (fst (readData pf fs filename)) \<and>
      concat (map skippedError (fst (readData pf fs filename))) =
        concat (map (lineError pf) (malformedLines pf (scanLines sc))) \<and>
      length (fst (readData pf fs filename)) = length (malformedLines pf (scanLines sc)) \<and>
      (\<exists>points. snd (readDataFromFile pf fs filename) = Done (Inr points))) \<and>
   ((\<exists>err. snd (readData pf fs filename) = Done (Inl err)) \<longleftrightarrow>
      (\<exists>err. fs filename = Inl err) \<or>
      (\<exists>sc err. fs filename = Inr sc \<and> scanErr sc = Some err)) \<and>
   readData parseDecimal (oneFile [''1 2'', ''bad line here'', ''3 4'']) ''data.txt''
     = ([LogSkipping 2 ''data.txt'' (UnsupportedFormat 3)],
        Done (Inr [\<lparr>X = 1, Y = 2\<rparr>, \<lparr>X = 3, Y = 4\<rparr>])) \<and>
   readDataFromFile parseDecimal (oneFile [''1 2'', ''bad line here'', ''3 4'']) ''data.txt''
     = ([PrintParsingError 2 ''bad line here''],
        Done (Inr [\<lparr>X = 1, Y = 2\<rparr>, \<lparr>X = 3, Y = 4\<rparr>]))"
proof (intro conjI impI)
  assume o: "fs filename = Inr sc" and e: "scanErr sc = None"
  from readData_opened [of fs filename sc pf] o e
  show "snd (readData pf fs filename) = Done (Inr (parsedPoints pf (scanLines sc)))"
    and "list_all (isLogSkipping filename) (fst (readData pf fs filename))"
    and "concat (map skippedError (fst (readData pf fs filename))) =
        concat (map (lineError pf) (malformedLines pf (scanLines sc)))"
    and "length (fst (readData pf fs filename)) = length (malformedLines pf (scanLines sc))"
    by auto
  show "length (parsedPoints pf (scanLines sc))
      = length (filter (parses pf) (dataLines (scanLines sc)))"
    by (rule length_parsedPoints)
  from readDataFromFile_opened [of fs filename sc pf] o e
  show "\<exists>points. snd (readDataFromFile pf fs filename) = Done (Inr points)"
    by auto
next
  show "(\<exists>err. snd (readData pf fs filename) = Done (Inl err)) \<longleftrightarrow>
      (\<exists>err. fs filename = Inl err) \<or>
      (\<exists>sc err. fs filename = Inr sc \<and> scanErr sc = Some err)"
  proof (cases "fs filename")
    case (Inl err)
    then show ?thesis by (simp add: readData_def)
  next
    case (Inr sc)
    from readData_opened [of fs filename sc pf] Inr show ?thesis
      by (cases "scanErr sc") auto
  qed
next
  show "readData parseDecimal (oneFile [''1 2'', ''bad line here'', ''3 4'']) ''data.txt''
     = ([LogSkipping 2 ''data.txt'' (UnsupportedFormat 3)],
        Done (Inr [\<lparr>X = 1, Y = 2\<rparr>, \<lparr>X = 3, Y = 4\<rparr>]))"
    by code_simp
next
  show "readDataFromFile parseDecimal (oneFile [''1 2'', ''bad line here'', ''3 4''])
      ''data.txt''
     = ([PrintParsingError 2 ''bad line here''],
        Done (Inr [\<lparr>X = 1, Y = 2\<rparr>, \<lparr>X = 3, Y = 4\<rparr>]))"
    by code_simp
qed

theorem malformed_lines_skipped_witness:
  "snd (readData parseDecimal (oneFile [''1 2'', ''bad line here'', ''3 4'']) ''data.txt'')
     = Done (Inr (parsedPoints parseDecimal [''1 2'', ''bad line here'', ''3 4''])) \<and>
   parsedPoints parseDecimal [''1 2'', ''bad line here'', ''3 4'']
     = [\<lparr>X = 1, Y = 2\<rparr>, \<lparr>X = 3, Y = 4\<rparr>] \<and>
   malformedLines parseDecimal [''1 2'', ''bad line here'', ''3 4''] = [''bad line here''] \<and>
   length (fst (readData parseDecimal (oneFile [''1 2'', ''bad line here'', ''3 4''])
     ''data.txt'')) = 1"
proof -
  have o: "oneFile [''1 2'', ''bad line here'', ''3 4''] ''data.txt''
      = Inr \<lparr>scanLines = [''1 2'', ''bad line here'', ''3 4''], scanErr = None\<rparr>"
    by (simp add: oneFile_def)
  have p: "parsedPoints parseDecimal [''1 2'', ''bad line here'', ''3 4'']
     = [\<lparr>X = 1, Y = 2\<rparr>, \<lparr>X = 3, Y = 4\<rparr>]" by code_simp
  have m: "malformedLines parseDecimal [''1 2'', ''bad line here'', ''3 4'']
      = [''bad line here'']" by code_simp
  show ?thesis
    using o p m
      malformed_lines_skipped [where pf = parseDecimal
        and fs = "oneFile [''1 2'', ''bad line here'', ''3 4'']" and filename = "''data.txt''"
        and sc = "\<lparr>scanLines = [''1 2'', ''bad line here'', ''3 4''], scanErr = None\<rparr>"]
    by simp
qed

section \<open>The terminal check and the run\<close>

lemma Contains_sublist: "Contains s name \<longleftrightarrow> sublist name s"
  by (induction s) (auto simp: sublist_Cons_right)

lemma sublist_map_iff: "sublist ys (map f xs) \<longleftrightarrow> (\<exists>u. sublist u xs \<and> map f u = ys)"
proof
  assume "sublist ys (map f xs)"
  then obtain ps ss where "map f xs = ps @ ys @ ss" by (auto simp: sublist_def)
  then obtain a b c where "xs = a @ b @ c" "map f b = ys"
    by (metis map_eq_append_conv)
  then show "\<exists>u. sublist u xs \<and> map f u = ys" by (auto simp: sublist_def)
next
  assume "\<exists>u. sublist u xs \<and> map f u = ys"
  then obtain u ps ss where "xs = ps @ u @ ss" "map f u = ys" by (auto simp: sublist_def)
  then have "map f xs = map f ps @ ys @ map f ss" by simp
  then show "sublist ys (map f xs)" unfolding sublist_def by blast
qed

lemma ToLower_lower: "ToLower ''xterm'' = ''xterm''" "ToLower ''vt340'' = ''vt340''"
  "ToLower ''mlterm'' = ''mlterm''"
  by code_simp+

lemma Contains_ToLower:
  "ToLower name = name \<Longrightarrow> Contains (ToLower s) name \<longleftrightarrow> containsIgnoringCase s name"
  by (simp add: Contains_sublist containsIgnoringCase_def ToLower_def sublist_map_iff)

lemma isSixelSupported_iff:
  "isSixelSupported env \<longleftrightarrow>
     containsIgnoringCase (Getenv env ''TERM'') ''xterm'' \<or>
     containsIgnoringCase (Getenv env ''TERM'') ''vt340'' \<or>
     containsIgnoringCase (Getenv env ''TERM'') ''mlterm''"
  by (simp add: isSixelSupported_def Let_def Contains_ToLower ToLower_lower)

lemma not_supported_unset: "env ''TERM'' = None \<Longrightarrow> \<not> isSixelSupported env"
  by (simp add: isSixelSupported_def Getenv_def ToLower_def)

lemma createPlot_events:
  "createPlot w points outFile cfg = (evs, Inr u) \<Longrightarrow>
   evs = [WritePlot (ofInt w (Width cfg)) (ofInt w (Height cfg)) outFile]"
  by (auto simp: createPlot_def Let_def split: sum.splits option.splits)

lemma createPlot_failed:
  "createPlot w points outFile cfg = (evs, Inl err) \<Longrightarrow> evs = []"
  by (auto simp: createPlot_def Let_def split: sum.splits option.splits)

lemma createPlot_Scale:
  "createPlot w points outFile (cfg\<lparr>Scale := s\<rparr>) = createPlot w points outFile cfg"
  by (simp add: createPlot_def createPlotters_def Let_def split: sum.split option.split)

lemma displaySixel_unsupported:
  "\<not> isSixelSupported (environ w) \<Longrightarrow> displaySixel w name cfg = ([], Inr ())"
  by (simp add: displaySixel_def)

lemma displaySixel_encodes_iff:
  "(\<exists>e \<in> set (fst (displaySixel w name cfg)). isEncodeSixel e) \<longleftrightarrow>
     isSixelSupported (environ w) \<and> OpenImage w name = None \<and> Decode w name = None"
  by (auto simp: displaySixel_def Let_def split: option.splits)

lemma displaySixel_scaled:
  "isSixelSupported (environ w) \<Longrightarrow> OpenImage w name = None \<Longrightarrow> Decode w name = None \<Longrightarrow>
   fst (displaySixel w name cfg) =
     (if Scale cfg \<noteq> 1
      then [EncodeSixel (toInt w (ofInt w (Width cfg) * Scale cfg))
              (toInt w (ofInt w (Height cfg) * Scale cfg))]
      else [EncodeSixel 0 0])"
  by (simp add: displaySixel_def Let_def NewEncoder_def split: option.splits)

lemma run_after_read:
  "readData (ParseFloat w) (files w) (Input cfg) = (evs, Done (Inr points)) \<Longrightarrow>
   run w cfg =
     (if points = [] then (evs, Done (Inl (NoValidDataPoints (Input cfg))))
      else
        (let outFile = TrimSuffix (Input cfg) (Ext (Input cfg)) @ ''_plot.png'' in
         case createPlot w points outFile cfg of
           (evs1, Inl err) \<Rightarrow> (evs @ evs1, Done (Inl (CreatingPlot err)))
         | (evs1, Inr u) \<Rightarrow>
             (case displaySixel w outFile cfg of
                (evs2, Inl err) \<Rightarrow>
                  (evs @ evs1 @ [LogPlotSaved outFile] @ evs2, Done (Inl (DisplayingSIXEL err)))
              | (evs2, Inr u) \<Rightarrow>
                  (evs @ evs1 @ [LogPlotSaved outFile] @ evs2, Done (Inr ())))))"
  by (simp add: run_def)

lemma run_read_error:
  "readData (ParseFloat w) (files w) (Input cfg) = (evs, Done (Inl err)) \<Longrightarrow>
   run w cfg = (evs, Done (Inl (ReadingData (Input cfg) err)))"
  by (simp add: run_def)

lemma run_no_points_iff:
  "snd (run w cfg) = Done (Inl (NoValidDataPoints name)) \<longleftrightarrow>
     snd (readData (ParseFloat w) (files w) (Input cfg)) = Done (Inr []) \<and> name = Input cfg"
proof -
  obtain evs r where rd: "readData (ParseFloat w) (files w) (Input cfg) = (evs, Done r)"
    using readData_done [of "ParseFloat w" "files w" "Input cfg"] by (metis prod.collapse)
  show ?thesis
  proof (cases r)
    case (Inl err)
    with rd show ?thesis by (simp add: run_read_error)
  next
    case (Inr points)
    with rd show ?thesis
      by (auto simp: run_after_read Let_def split: prod.splits sum.splits)
  qed
qed

lemma run_ok_points:
  "snd (run w cfg) = Done (Inr ()) \<Longrightarrow>
   \<exists>points. snd (readData (ParseFloat w) (files w) (Input cfg)) = Done (Inr points) \<and> points \<noteq> []"
proof -
  assume ok: "snd (run w cfg) = Done (Inr ())"
  obtain evs r where rd: "readData (ParseFloat w) (files w) (Input cfg) = (evs, Done r)"
    using readData_done [of "ParseFloat w" "files w" "Input cfg"] by (metis prod.collapse)
  show ?thesis
  proof (cases r)
    case (Inl err)
    with rd ok show ?thesis by (simp add: run_read_error)
  next
    case (Inr points)
    with rd ok show ?thesis
      by (auto simp: run_after_read Let_def split: prod.splits sum.splits if_splits)
  qed
qed

lemma dataLines_all_skipped: "list_all isBlankOrComment raws \<Longrightarrow> dataLines raws = []"
  by (induction raws) (simp_all add: dataLines_Cons dataLines_Nil)

lemma readData_only_comments:
  "fs filename = Inr sc \<Longrightarrow> scanErr sc = None \<Longrightarrow> list_all isBlankOrComment (scanLines sc) \<Longrightarrow>
   readData pf fs filename = ([], Done (Inr []))"
  using readData_opened [of fs filename sc pf]
  by (auto simp: parsedPoints_def malformedLines_def dataLines_all_skipped)

lemma main_after_run:
  "parseFlags cl = Some cfg \<Longrightarrow> run w cfg = (evs, Done r) \<Longrightarrow>
   main w cl = (case r of Inl err \<Rightarrow> (evs @ [LogFatal err], 1) | Inr u \<Rightarrow> (evs, 0))"
  by (simp add: main_def split: sum.split)

lemma plotDataToSixel_no_points:
  "snd (readDataFromFile (ParseFloat w) (files w) filename) = Done (Inr []) \<Longrightarrow>
   plotDataToSixel w filename config =
     (fst (readDataFromFile (ParseFloat w) (files w) filename), Done (Inl NoValidDataPointsInFile))"
  by (cases "readDataFromFile (ParseFloat w) (files w) filename") (simp add: plotDataToSixel_def)

lemma main_first_no_points:
  "Args_first cl = [filename] \<Longrightarrow>
   snd (readDataFromFile (ParseFloat w) (files w) filename) = Done (Inr []) \<Longrightarrow>
   snd (main_first w cl) = 1"
  by (simp add: main_first_def Arg_def plotDataToSixel_no_points Let_def)

text \<open>
  C5. \<open>run\<close> fails with the error \<open>no valid data points found\<close> exactly when
  \<open>readData\<close> returns no error and no point; \<open>main\<close> then logs that error and the
  process exits with status 1. A run that succeeds had at least one point. A file of
  blank lines and comments only is such a case. The earlier program does the same:
  \<open>plotDataToSixel\<close> returns its error \<open>no valid data points found in file\<close> and
  \<open>main\<close> exits with status 1.
\<close>

theorem empty_dataset_is_fatal:
  "(snd (run w cfg) = Done (Inl (NoValidDataPoints name)) \<longleftrightarrow>
      snd (readData (ParseFloat w) (files w) (Input cfg)) = Done (Inr []) \<and> name = Input cfg) \<and>
   (snd (run w cfg) = Done (Inr ()) \<longrightarrow>
      (\<exists>points. snd (readData (ParseFloat w) (files w) (Input cfg)) = Done (Inr points) \<and>
         points \<noteq> [])) \<and>
   (parseFlags cl = Some cfg \<longrightarrow>
    snd (readData (ParseFloat w) (files w) (Input cfg)) = Done (Inr []) \<longrightarrow>
      main w cl = (fst (run w cfg) @ [LogFatal (NoValidDataPoints (Input cfg))], 1)) \<and>
   (files w (Input cfg) = Inr sc \<longrightarrow> scanErr sc = None \<longrightarrow>
    list_all isBlankOrComment (scanLines sc) \<longrightarrow>
      run w cfg = ([], Done (Inl (NoValidDataPoints (Input cfg))))) \<and>
   (snd (readDataFromFile (ParseFloat w) (files w) filename) = Done (Inr []) \<longrightarrow>
      snd (plotDataToSixel w filename config) = Done (Inl NoValidDataPointsInFile)) \<and>
   (Args_first cl1 = [filename] \<longrightarrow>
    snd (readDataFromFile (ParseFloat w) (files w) filename) = Done (Inr []) \<longrightarrow>
      snd (main_first w cl1) = 1)"
proof (intro conjI impI)
  show "snd (run w cfg) = Done (Inl (NoValidDataPoints name)) \<longleftrightarrow>
      snd (readData (ParseFloat w) (files w) (Input cfg)) = Done (Inr []) \<and> name = Input cfg"
    by (rule run_no_points_iff)
next
  assume "snd (run w cfg) = Done (Inr ())"
  then show "\<exists>points. snd (readData (ParseFloat w) (files w) (Input cfg)) = Done (Inr points) \<and>
         points \<noteq> []"
    by (rule run_ok_points)
next
  assume p: "parseFlags cl = Some cfg"
    and e: "snd (readData (ParseFloat w) (files w) (Input cfg)) = Done (Inr [])"
  from e have "snd (run w cfg) = Done (Inl (NoValidDataPoints (Input cfg)))"
    by (simp add: run_no_points_iff)
  then have "run w cfg = (fst (run w cfg), Done (Inl (NoValidDataPoints (Input cfg))))"
    by (metis prod.collapse)
  from main_after_run [OF p this] show
    "main w cl = (fst (run w cfg) @ [LogFatal (NoValidDataPoints (Input cfg))], 1)"
    by simp
next
  assume "files w (Input cfg) = Inr sc" "scanErr sc = None"
    "list_all isBlankOrComment (scanLines sc)"
  then have "readData (ParseFloat w) (files w) (Input cfg) = ([], Done (Inr []))"
    by (rule readData_only_comments)
  then show "run w cfg = ([], Done (Inl (NoValidDataPoints (Input cfg))))"
    by (simp add: run_after_read)
next
  assume "snd (readDataFromFile (ParseFloat w) (files w) filename) = Done (Inr [])"
  then show "snd (plotDataToSixel w filename config) = Done (Inl NoValidDataPointsInFile)"
    by (simp add: plotDataToSixel_no_points)
next
  assume "Args_first cl1 = [filename]"
    "snd (readDataFromFile (ParseFloat w) (files w) filename) = Done (Inr [])"
  then show "snd (main_first w cl1) = 1" by (rule main_first_no_points)
qed

theorem empty_dataset_is_fatal_witness:
  "run (sampleWorld [''# only'', '''', '' % comments''] None) (sampleConfig 1200 1200 1)
     = ([], Done (Inl (NoValidDataPoints ''data.txt''))) \<and>
   main (sampleWorld [''# only'', '''', '' % comments''] None)
     \<lparr>flag_w = None, flag_h = None, flag_s = None, flag_line_width = None,
      Args = [''data.txt'']\<rparr>
     = ([LogFatal (NoValidDataPoints ''data.txt'')], 1)"
proof -
  let ?w = "sampleWorld [''# only'', '''', '' % comments''] None"
  let ?cl = "\<lparr>flag_w = None, flag_h = None, flag_s = None, flag_line_width = None,
      Args = [''data.txt'']\<rparr> :: real cmdline"
  have f: "files ?w (Input (sampleConfig 1200 1200 1))
      = Inr \<lparr>scanLines = [''# only'', '''', '' % comments''], scanErr = None\<rparr>"
    by (simp add: sampleWorld_def sampleConfig_def oneFile_def)
  have b: "list_all isBlankOrComment [''# only'', '''', '' % comments'']" by code_simp
  have p: "parseFlags ?cl = Some (sampleConfig 1200 1200 1)"
    by (simp add: parseFlags_def Arg_def sampleConfig_def flagOr_def defaultWidth_def
        defaultHeight_def defaultScale_def defaultLineWidth_def)
  have r: "snd (readData (ParseFloat ?w) (files ?w) (Input (sampleConfig 1200 1200 1)))
      = Done (Inr [])" by code_simp
  have i: "Input (sampleConfig 1200 1200 1) = ''data.txt''" by (simp add: sampleConfig_def)
  show ?thesis
    using f b p r i
      empty_dataset_is_fatal [where w = ?w and cfg = "sampleConfig 1200 1200 1" and cl = ?cl
        and sc = "\<lparr>scanLines = [''# only'', '''', '' % comments''], scanErr = None\<rparr>"]
    by simp
qed

lemma isLogSkipping_not_sixel: "isLogSkipping filename e \<Longrightarrow> \<not> isEncodeSixel e"
  by (cases e) simp_all

lemma readData_events:
  "list_all (isLogSkipping filename) (fst (readData pf fs filename))"
proof (cases "fs filename")
  case (Inl err)
  then show ?thesis by (simp add: readData_def)
next
  case (Inr sc)
  from readData_opened [of fs filename sc pf] Inr show ?thesis by auto
qed

lemma readData_no_sixel: "e \<in> set (fst (readData pf fs filename)) \<Longrightarrow> \<not> isEncodeSixel e"
  using readData_events [of filename pf fs] isLogSkipping_not_sixel [of filename e]
  by (auto simp: list_all_iff)

lemma run_unsupported:
  assumes "\<not> isSixelSupported (environ w)"
    and "readData (ParseFloat w) (files w) (Input cfg) = (evs, Done (Inr points))"
    and "points \<noteq> []"
    and "createPlot w points (TrimSuffix (Input cfg) (Ext (Input cfg)) @ ''_plot.png'') cfg
      = (evs1, Inr ())"
  shows "run w cfg =
      (evs @ [WritePlot (ofInt w (Width cfg)) (ofInt w (Height cfg))
                (TrimSuffix (Input cfg) (Ext (Input cfg)) @ ''_plot.png''),
              LogPlotSaved (TrimSuffix (Input cfg) (Ext (Input cfg)) @ ''_plot.png'')],
       Done (Inr ()))"
proof -
  from assms(4) have "evs1 = [WritePlot (ofInt w (Width cfg)) (ofInt w (Height cfg))
                (TrimSuffix (Input cfg) (Ext (Input cfg)) @ ''_plot.png'')]"
    by (rule createPlot_events)
  with assms show ?thesis
    by (simp add: run_after_read displaySixel_unsupported Let_def)
qed

lemma run_unsupported_quiet:
  assumes u: "\<not> isSixelSupported (environ w)"
  shows "\<not> (\<exists>e \<in> set (fst (run w cfg)). isEncodeSixel e) \<and>
    (\<forall>err. snd (run w cfg) \<noteq> Done (Inl (DisplayingSIXEL err)))"
proof -
  obtain evs r where rd: "readData (ParseFloat w) (files w) (Input cfg) = (evs, Done r)"
    using readData_done [of "ParseFloat w" "files w" "Input cfg"] by (metis prod.collapse)
  have q: "\<forall>e \<in> set evs. \<not> isEncodeSixel e"
    using readData_no_sixel [of _ "ParseFloat w" "files w" "Input cfg"] rd by simp
  show ?thesis
  proof (cases r)
    case (Inl err)
    with rd q show ?thesis by (simp add: run_read_error)
  next
    case (Inr points)
    let ?out = "TrimSuffix (Input cfg) (Ext (Input cfg)) @ ''_plot.png''"
    obtain evs1 r1 where cp: "createPlot w points ?out cfg = (evs1, r1)"
      by (metis prod.collapse)
    have e1: "\<forall>e \<in> set evs1. \<not> isEncodeSixel e"
    proof (cases r1)
      case (Inl err)
      with cp have "evs1 = []" by (simp add: createPlot_failed)
      then show ?thesis by simp
    next
      case (Inr u1)
      with cp have "evs1 = [WritePlot (ofInt w (Width cfg)) (ofInt w (Height cfg)) ?out]"
        by (simp add: createPlot_events)
      then show ?thesis by simp
    qed
    from rd Inr cp q e1 u show ?thesis
      by (cases r1) (auto simp: run_after_read displaySixel_unsupported Let_def)
  qed
qed

text \<open>
  C8. \<open>isSixelSupported\<close> holds exactly when the value of \<open>TERM\<close> contains \<open>xterm\<close>,
  \<open>vt340\<close> or \<open>mlterm\<close> up to the case of its letters; it does not hold when \<open>TERM\<close> is
  not set. \<open>displaySixel\<close> calls the encoder exactly when \<open>isSixelSupported\<close> holds and
  the saved image opens and decodes. When \<open>isSixelSupported\<close> does not hold,
  \<open>displaySixel\<close> does nothing and returns no error, and no run calls the encoder or
  fails in the display; a run whose data has a point and whose plot is created then
  writes the image file, logs that it is saved and returns no error, and \<open>main\<close> exits
  with status 0.
\<close>

theorem sixel_capability:
  "(isSixelSupported env \<longleftrightarrow>
      containsIgnoringCase (Getenv env ''TERM'') ''xterm'' \<or>
      containsIgnoringCase (Getenv env ''TERM'') ''vt340'' \<or>
      containsIgnoringCase (Getenv env ''TERM'') ''mlterm'') \<and>
   (env ''TERM'' = None \<longrightarrow> \<not> isSixelSupported env) \<and>
   ((\<exists>e \<in> set (fst (displaySixel w name cfg)). isEncodeSixel e) \<longleftrightarrow>
      isSixelSupported (environ w) \<and> OpenImage w name = None \<and> Decode w name = None) \<and>
   (\<not> isSixelSupported (environ w) \<longrightarrow> displaySixel w name cfg = ([], Inr ())) \<and>
   (\<not> isSixelSupported (environ w) \<longrightarrow>
      \<not> (\<exists>e \<in> set (fst (run w cfg)). isEncodeSixel e) \<and>
      (\<forall>err. snd (run w cfg) \<noteq> Done (Inl (DisplayingSIXEL err)))) \<and>
   (\<not> isSixelSupported (environ w) \<longrightarrow>
    readData (ParseFloat w) (files w) (Input cfg) = (evs, Done (Inr points)) \<longrightarrow>
    points \<noteq> [] \<longrightarrow>
    createPlot w points (TrimSuffix (Input cfg) (Ext (Input cfg)) @ ''_plot.png'') cfg
      = (evs1, Inr ()) \<longrightarrow>
      run w cfg =
        (evs @ [WritePlot (ofInt w (Width cfg)) (ofInt w (Height cfg))
                  (TrimSuffix (Input cfg) (Ext (Input cfg)) @ ''_plot.png''),
                LogPlotSaved (TrimSuffix (Input cfg) (Ext (Input cfg)) @ ''_plot.png'')],
         Done (Inr ())) \<and>
      \<not> (\<exists>e \<in> set (fst (run w cfg)). isEncodeSixel e) \<and>
      (parseFlags cl = Some cfg \<longrightarrow> snd (main w cl) = 0))"
proof (intro conjI impI)
  show "isSixelSupported env \<longleftrightarrow>
      containsIgnoringCase (Getenv env ''TERM'') ''xterm'' \<or>
      containsIgnoringCase (Getenv env ''TERM'') ''vt340'' \<or>
      containsIgnoringCase (Getenv env ''TERM'') ''mlterm''"
    by (rule isSixelSupported_iff)
next
  assume "env ''TERM'' = None"
  then show "\<not> isSixelSupported env" by (rule not_supported_unset)
next
  show "(\<exists>e \<in> set (fst (displaySixel w name cfg)). isEncodeSixel e) \<longleftrightarrow>
      isSixelSupported (environ w) \<and> OpenImage w name = None \<and> Decode w name = None"
    by (rule displaySixel_encodes_iff)
next
  assume "\<not> isSixelSupported (environ w)"
  then show "displaySixel w name cfg = ([], Inr ())" by (rule displaySixel_unsupported)
next
  assume "\<not> isSixelSupported (environ w)"
  from run_unsupported_quiet [OF this, of cfg]
  show "\<not> (\<exists>e \<in> set (fst (run w cfg)). isEncodeSixel e)"
    and "\<forall>err. snd (run w cfg) \<noteq> Done (Inl (DisplayingSIXEL err))"
    by simp_all
next
  assume a: "\<not> isSixelSupported (environ w)"
    "readData (ParseFloat w) (files w) (Input cfg) = (evs, Done (Inr points))"
    "points \<noteq> []"
    "createPlot w points (TrimSuffix (Input cfg) (Ext (Input cfg)) @ ''_plot.png'') cfg
      = (evs1, Inr ())"
  then show r: "run w cfg =
        (evs @ [WritePlot (ofInt w (Width cfg)) (ofInt w (Height cfg))
                  (TrimSuffix (Input cfg) (Ext (Input cfg)) @ ''_plot.png''),
                LogPlotSaved (TrimSuffix (Input cfg) (Ext (Input cfg)) @ ''_plot.png'')],
         Done (Inr ()))"
    by (rule run_unsupported)
  have "\<forall>e \<in> set evs. \<not> isEncodeSixel e"
    using readData_no_sixel [of _ "ParseFloat w" "files w" "Input cfg"] a(2) by simp
  with r show "\<not> (\<exists>e \<in> set (fst (run w cfg)). isEncodeSixel e)" by auto
  {
    assume "parseFlags cl = Some cfg"
    from main_after_run [OF this r] show "snd (main w cl) = 0" by simp
  }
qed


theorem sixel_capability_witness:
  "(containsIgnoringCase ''XTerm-256color'' ''xterm'' \<or>
    containsIgnoringCase ''XTerm-256color'' ''vt340'' \<or>
    containsIgnoringCase ''XTerm-256color'' ''mlterm'') \<and>
   \<not> (containsIgnoringCase ''rxvt'' ''xterm'' \<or> containsIgnoringCase ''rxvt'' ''vt340'' \<or>
      containsIgnoringCase ''rxvt'' ''mlterm'') \<and>
   \<not> isSixelSupported (\<lambda>key. None) \<and>
   run (sampleWorld [''1 2'', ''3 4''] (Some ''rxvt'')) (sampleConfig 100 50 2)
     = ([WritePlot 100 50 ''data_plot.png'', LogPlotSaved ''data_plot.png''], Done (Inr ())) \<and>
   run (sampleWorld [''1 2'', ''3 4''] None) (sampleConfig 100 50 2)
     = ([WritePlot 100 50 ''data_plot.png'', LogPlotSaved ''data_plot.png''], Done (Inr ()))"
proof -
  let ?cfg = "sampleConfig 100 50 2"
  let ?pts = "[\<lparr>X = 1, Y = 2\<rparr>, \<lparr>X = 3, Y = 4 :: real\<rparr>]"
  have s1: "isSixelSupported (\<lambda>key. if key = ''TERM'' then Some ''XTerm-256color'' else None)"
    by code_simp
  have s2: "\<not> isSixelSupported (\<lambda>key. if key = ''TERM'' then Some ''rxvt'' else None)"
    by code_simp
  have g: "Getenv (\<lambda>key. if key = ''TERM'' then Some ''XTerm-256color'' else None) ''TERM''
      = ''XTerm-256color''"
    "Getenv (\<lambda>key. if key = ''TERM'' then Some ''rxvt'' else None) ''TERM'' = ''rxvt''"
    by (simp_all add: Getenv_def)
  have e: "environ (sampleWorld [''1 2'', ''3 4''] (Some ''rxvt''))
      = (\<lambda>key. if key = ''TERM'' then Some ''rxvt'' else None)"
    "environ (sampleWorld [''1 2'', ''3 4''] None) = (\<lambda>key. None)"
    by (simp_all add: sampleWorld_def)
  have rd: "readData (ParseFloat (sampleWorld [''1 2'', ''3 4''] (Some ''rxvt'')))
      (files (sampleWorld [''1 2'', ''3 4''] (Some ''rxvt''))) (Input ?cfg) = ([], Done (Inr ?pts))"
    "readData (ParseFloat (sampleWorld [''1 2'', ''3 4''] None))
      (files (sampleWorld [''1 2'', ''3 4''] None)) (Input ?cfg) = ([], Done (Inr ?pts))"
    by code_simp+
  have cp: "createPlot (sampleWorld [''1 2'', ''3 4''] (Some ''rxvt'')) ?pts
      (TrimSuffix (Input ?cfg) (Ext (Input ?cfg)) @ ''_plot.png'') ?cfg
      = ([WritePlot 100 50 ''data_plot.png''], Inr ())"
    "createPlot (sampleWorld [''1 2'', ''3 4''] None) ?pts
      (TrimSuffix (Input ?cfg) (Ext (Input ?cfg)) @ ''_plot.png'') ?cfg
      = ([WritePlot 100 50 ''data_plot.png''], Inr ())"
    by code_simp+
  have o: "TrimSuffix (Input ?cfg) (Ext (Input ?cfg)) @ ''_plot.png'' = ''data_plot.png''"
    by code_simp
  have d: "ofInt (sampleWorld [''1 2'', ''3 4''] (Some ''rxvt'')) (Width ?cfg) = 100"
    "ofInt (sampleWorld [''1 2'', ''3 4''] (Some ''rxvt'')) (Height ?cfg) = 50"
    "ofInt (sampleWorld [''1 2'', ''3 4''] None) (Width ?cfg) = 100"
    "ofInt (sampleWorld [''1 2'', ''3 4''] None) (Height ?cfg) = 50"
    by (simp_all add: sampleWorld_def sampleConfig_def)
  show ?thesis
    using s1 s2 g e rd cp o d
      sixel_capability [where env = "\<lambda>key. if key = ''TERM'' then Some ''XTerm-256color'' else None"]
      sixel_capability [where env = "\<lambda>key. if key = ''TERM'' then Some ''rxvt'' else None"]
      sixel_capability [where env = "\<lambda>key. None"]
      sixel_capability [where w = "sampleWorld [''1 2'', ''3 4''] (Some ''rxvt'')"
        and cfg = ?cfg and evs = "[]" and points = ?pts
        and ?evs1.0 = "[WritePlot 100 50 ''data_plot.png'']"]
      sixel_capability [where w = "sampleWorld [''1 2'', ''3 4''] None"
        and cfg = ?cfg and evs = "[]" and points = ?pts
        and ?evs1.0 = "[WritePlot 100 50 ''data_plot.png'']"]
    by simp
qed

text \<open>
  C9. When \<open>displaySixel\<close> reaches the encoder and \<open>Scale\<close> is not \<open>1.0\<close>, the encoder is
  called with the width \<open>int(float64(Width) * Scale)\<close> and the height
  \<open>int(float64(Height) * Scale)\<close>; when \<open>Scale\<close> is \<open>1.0\<close> its width and height stay
  zero. With width 100, height 50 and scale 2.0 they are 200 and 100. \<open>createPlot\<close>
  does not depend on \<open>Scale\<close>: the image it writes has the lengths \<open>float64(Width)\<close>
  and \<open>float64(Height)\<close>, 100 and 50 in the example.
\<close>

theorem scaled_dimensions:
  "(isSixelSupported (environ w) \<longrightarrow> OpenImage w name = None \<longrightarrow> Decode w name = None \<longrightarrow>
    Scale cfg \<noteq> 1 \<longrightarrow>
      fst (displaySixel w name cfg) =
        [EncodeSixel (toInt w (ofInt w (Width cfg) * Scale cfg))
           (toInt w (ofInt w (Height cfg) * Scale cfg))]) \<and>
   (isSixelSupported (environ w) \<longrightarrow> OpenImage w name = None \<longrightarrow> Decode w name = None \<longrightarrow>
    Scale cfg = 1 \<longrightarrow> fst (displaySixel w name cfg) = [EncodeSixel 0 0]) \<and>
   createPlot w points outFile (cfg\<lparr>Scale := s\<rparr>) = createPlot w points outFile cfg \<and>
   (createPlot w points outFile cfg = (evs, Inr ()) \<longrightarrow>
      evs = [WritePlot (ofInt w (Width cfg)) (ofInt w (Height cfg)) outFile]) \<and>
   run (sampleWorld [''1 2'', ''3 4''] (Some ''xterm'')) (sampleConfig 100 50 2)
     = ([WritePlot 100 50 ''data_plot.png'', LogPlotSaved ''data_plot.png'',
         EncodeSixel 200 100], Done (Inr ())) \<and>
   run (sampleWorld [''1 2'', ''3 4''] (Some ''xterm'')) (sampleConfig 100 50 1)
     = ([WritePlot 100 50 ''data_plot.png'', LogPlotSaved ''data_plot.png'',
         EncodeSixel 0 0], Done (Inr ()))"
proof (intro conjI impI)
  assume "isSixelSupported (environ w)" "OpenImage w name = None" "Decode w name = None"
    "Scale cfg \<noteq> 1"
  then show "fst (displaySixel w name cfg) =
        [EncodeSixel (toInt w (ofInt w (Width cfg) * Scale cfg))
           (toInt w (ofInt w (Height cfg) * Scale cfg))]"
    by (simp add: displaySixel_scaled)
next
  assume "isSixelSupported (environ w)" "OpenImage w name = None" "Decode w name = None"
    "Scale cfg = 1"
  then show "fst (displaySixel w name cfg) = [EncodeSixel 0 0]"
    by (simp add: displaySixel_scaled)
next
  show "createPlot w points outFile (cfg\<lparr>Scale := s\<rparr>) = createPlot w points outFile cfg"
    by (rule createPlot_Scale)
next
  assume "createPlot w points outFile cfg = (evs, Inr ())"
  then show "evs = [WritePlot (ofInt w (Width cfg)) (ofInt w (Height cfg)) outFile]"
    by (rule createPlot_events)
next
  show "run (sampleWorld [''1 2'', ''3 4''] (Some ''xterm'')) (sampleConfig 100 50 2)
     = ([WritePlot 100 50 ''data_plot.png'', LogPlotSaved ''data_plot.png'',
         EncodeSixel 200 100], Done (Inr ()))"
    by code_simp
next
  show "run (sampleWorld [''1 2'', ''3 4''] (Some ''xterm'')) (sampleConfig 100 50 1)
     = ([WritePlot 100 50 ''data_plot.png'', LogPlotSaved ''data_plot.png'',
         EncodeSixel 0 0], Done (Inr ()))"
    by code_simp
qed

theorem scaled_dimensions_witness:
  "fst (displaySixel (sampleWorld [] (Some ''xterm'')) ''data_plot.png'' (sampleConfig 100 50 2))
     = [EncodeSixel 200 100] \<and>
   fst (displaySixel (sampleWorld [] (Some ''xterm'')) ''data_plot.png''
     (sampleConfig 100 50 (1 / 2))) = [EncodeSixel 50 25] \<and>
   fst (displaySixel (sampleWorld [] (Some ''xterm'')) ''data_plot.png''
     (sampleConfig 101 51 (1 / 2))) = [EncodeSixel 50 25] \<and>
   createPlot (sampleWorld [] None) [\<lparr>X = 1, Y = 2\<rparr>] ''data_plot.png'' (sampleConfig 100 50 2)
     = ([WritePlot 100 50 ''data_plot.png''], Inr ())"
proof -
  let ?w = "sampleWorld [] (Some ''xterm'')"
  have s: "isSixelSupported (environ ?w)" by code_simp
  have o: "OpenImage ?w ''data_plot.png'' = None" "Decode ?w ''data_plot.png'' = None"
    by (simp_all add: sampleWorld_def)
  have c: "Scale (sampleConfig 100 50 2) \<noteq> 1" "Scale (sampleConfig 100 50 (1 / 2)) \<noteq> 1"
    "Scale (sampleConfig 101 51 (1 / 2)) \<noteq> 1"
    by (simp_all add: sampleConfig_def)
  have t: "toInt ?w (ofInt ?w (Width (sampleConfig 100 50 2)) * Scale (sampleConfig 100 50 2)) = 200"
    "toInt ?w (ofInt ?w (Height (sampleConfig 100 50 2)) * Scale (sampleConfig 100 50 2)) = 100"
    "toInt ?w (ofInt ?w (Width (sampleConfig 100 50 (1 / 2))) * Scale (sampleConfig 100 50 (1 / 2))) = 50"
    "toInt ?w (ofInt ?w (Height (sampleConfig 100 50 (1 / 2))) * Scale (sampleConfig 100 50 (1 / 2))) = 25"
    "toInt ?w (ofInt ?w (Width (sampleConfig 101 51 (1 / 2))) * Scale (sampleConfig 101 51 (1 / 2))) = 50"
    "toInt ?w (ofInt ?w (Height (sampleConfig 101 51 (1 / 2))) * Scale (sampleConfig 101 51 (1 / 2))) = 25"
    by code_simp+
  have p: "createPlot (sampleWorld [] None) [\<lparr>X = 1, Y = 2\<rparr>] ''data_plot.png''
      (sampleConfig 100 50 2) = ([WritePlot 100 50 ''data_plot.png''], Inr ())"
    by code_simp
  show ?thesis
    using s o c t p
      scaled_dimensions [where w = ?w and name = "''data_plot.png''"
        and cfg = "sampleConfig 100 50 2"]
      scaled_dimensions [where w = ?w and name = "''data_plot.png''"
        and cfg = "sampleConfig 100 50 (1 / 2)"]
      scaled_dimensions [where w = ?w and name = "''data_plot.png''"
        and cfg = "sampleConfig 101 51 (1 / 2)"]
    by simp
qed

section \<open>The two ingestions compared\<close>

lemma HasPrefix_single: "HasPrefix s [c] \<longleftrightarrow> (\<exists>cs. s = c # cs)"
  by (cases s) (auto simp: HasPrefix_def)

lemma TrimSpace_Cons_nonspace:
  "\<not> isSpace c \<Longrightarrow> \<exists>cs'. TrimSpace (c # cs) = c # cs'"
proof -
  assume n: "\<not> isSpace c"
  obtain pre post where d: "c # cs = pre @ TrimSpace (c # cs) @ post"
    and pre: "\<forall>d\<in>set pre. isSpace d" and post: "\<forall>d\<in>set post. isSpace d"
    using TrimSpace_decomp [of "c # cs"] by blast
  have "pre = []"
  proof (cases pre)
    case Nil
    then show ?thesis .
  next
    case (Cons p ps)
    with d have "p = c" by simp
    with pre Cons n show ?thesis by simp
  qed
  with d have d': "c # cs = TrimSpace (c # cs) @ post" by simp
  show ?thesis
  proof (cases "TrimSpace (c # cs)")
    case Nil
    with d' have "c \<in> set post" by (metis append_Nil list.set_intros(1))
    with post n show ?thesis by blast
  next
    case (Cons t ts)
    with d' have "t = c" by simp
    with Cons show ?thesis by blast
  qed
qed

lemma isSpace_hash: "\<not> isSpace (CHR ''#'')" "\<not> isSpace (CHR ''%'')"
  by (simp_all add: isSpace_def)

lemma prefix_is_comment:
  "HasPrefix line ''#'' \<or> HasPrefix line ''%'' \<Longrightarrow> isBlankOrComment line"
proof -
  assume "HasPrefix line ''#'' \<or> HasPrefix line ''%''"
  then obtain c cs where l: "line = c # cs" and c: "c = CHR ''#'' \<or> c = CHR ''%''"
    by (auto simp: HasPrefix_single)
  then have "\<not> isSpace c" using isSpace_hash by auto
  then obtain cs' where "TrimSpace (c # cs) = c # cs'"
    using TrimSpace_Cons_nonspace by blast
  with l c show ?thesis by (auto simp: isBlankOrComment_def)
qed

text \<open>What a line is for the two programs to agree on it.\<close>

lemma bodies_agree:
  assumes slash: "\<not> HasPrefix line ''/''"
    and three: "3 \<le> length (Fields line) \<longrightarrow>
      pf (Fields line ! 0) = None \<or> pf (Fields line ! 1) = None"
    and reject: "\<forall>s. HasPrefix s ''#'' \<or> HasPrefix s ''%'' \<longrightarrow> pf s = None"
  shows "\<exists>evs evs' vars.
      readDataFromFile_body pf line (points, i, n) = (evs, Done (fst vars, snd vars, Suc n)) \<and>
      readData_body pf filename line (points, i) = (evs', Done vars)"
proof (cases "HasPrefix line ''#'' \<or> HasPrefix line ''%''")
  case True
  then have "isBlankOrComment line" by (rule prefix_is_comment)
  with True show ?thesis
    by (auto simp: readDataFromFile_body_eq readData_body_eq)
next
  case False
  note np = False slash
  show ?thesis
  proof (cases "isBlankOrComment line")
    case True
    show ?thesis
    proof (cases "TrimSpace line")
      case Nil
      then have "Fields line = []" by (simp add: Fields_Nil_iff TrimSpace_Nil_iff)
      with np True show ?thesis by (simp add: readDataFromFile_body_eq readData_body_eq)
    next
      case (Cons c cs)
      with True have c: "c = CHR ''#'' \<or> c = CHR ''%''" by (simp add: isBlankOrComment_def)
      obtain f fs where f: "Fields line = (c # f) # fs"
        using Fields_of_TrimSpace_Cons [OF Cons] by blast
      from c have "HasPrefix (c # f) ''#'' \<or> HasPrefix (c # f) ''%''"
        by (auto simp: HasPrefix_single)
      with reject have "pf (c # f) = None" by blast
      with np True f show ?thesis
        by (cases fs) (simp_all add: readDataFromFile_body_eq readData_body_eq)
    qed
  next
    case False
    have ft: "Fields (TrimSpace line) = Fields line" by (rule Fields_TrimSpace)
    show ?thesis
    proof (cases "Fields line")
      case Nil
      with np False ft show ?thesis
        by (simp add: readDataFromFile_body_eq readData_body_eq parseLine_def)
    next
      case (Cons f0 rest)
      note c0 = Cons
      show ?thesis
      proof (cases rest)
        case Nil
        with c0 ft have "Fields (TrimSpace line) = [f0]" by simp
        from parseLine_one_field [OF this, of pf i] np False c0 Nil show ?thesis
          by (simp add: readDataFromFile_body_eq readData_body_eq split: option.split)
      next
        case (Cons f1 fs)
        note c1 = Cons
        show ?thesis
        proof (cases fs)
          case Nil
          with c0 c1 ft have "Fields (TrimSpace line) = [f0, f1]" by simp
          from parseLine_two_fields [OF this, of pf i] np False c0 c1 Nil show ?thesis
            by (simp add: readDataFromFile_body_eq readData_body_eq split: option.split)
        next
          case (Cons f2 fs')
          with c0 c1 ft have l: "length (Fields (TrimSpace line)) \<noteq> 1"
            "length (Fields (TrimSpace line)) \<noteq> 2" by simp_all
          from c0 c1 Cons three have "pf f0 = None \<or> pf f1 = None" by simp
          with parseLine_other [OF l, of pf i] np False c0 c1 Cons show ?thesis
            by (auto simp: readDataFromFile_body_eq readData_body_eq split: option.split)
        qed
      qed
    qed
  qed
qed


lemma ingestions_agree:
  assumes "\<forall>line\<in>set raws. \<not> HasPrefix line ''/''"
    and "\<forall>line\<in>set raws. 3 \<le> length (Fields line) \<longrightarrow>
      pf (Fields line ! 0) = None \<or> pf (Fields line ! 1) = None"
    and "\<forall>s. HasPrefix s ''#'' \<or> HasPrefix s ''%'' \<longrightarrow> pf s = None"
  shows "\<exists>evs evs' vars.
      readDataFromFile_loop pf raws (points, i, n)
        = (evs, Done (fst vars, snd vars, n + length raws)) \<and>
      readData_loop pf filename raws (points, i) = (evs', Done vars)"
  using assms(1,2)
proof (induction raws arbitrary: points i n)
  case Nil
  show ?case by simp
next
  case (Cons raw raws)
  from Cons.prems have "\<not> HasPrefix raw ''/''"
    and "3 \<le> length (Fields raw) \<longrightarrow> pf (Fields raw ! 0) = None \<or> pf (Fields raw ! 1) = None"
    by simp_all
  from bodies_agree [OF this assms(3), of points i n filename]
  obtain evs evs' points1 i1 where
    b: "readDataFromFile_body pf raw (points, i, n) = (evs, Done (points1, i1, Suc n))"
      "readData_body pf filename raw (points, i) = (evs', Done (points1, i1))"
    by auto
  from Cons.prems have "\<forall>line\<in>set raws. \<not> HasPrefix line ''/''"
    and "\<forall>line\<in>set raws. 3 \<le> length (Fields line) \<longrightarrow>
      pf (Fields line ! 0) = None \<or> pf (Fields line ! 1) = None"
    by simp_all
  from Cons.IH [OF this, of points1 i1 "Suc n"]
  obtain evs2 evs2' vars where
    "readDataFromFile_loop pf raws (points1, i1, Suc n)
        = (evs2, Done (fst vars, snd vars, Suc n + length raws))"
    "readData_loop pf filename raws (points1, i1) = (evs2', Done vars)"
    by blast
  with b show ?case by simp
qed

lemma both_fail_to_open:
  "fs filename = Inl err \<Longrightarrow>
   pointsOf (snd (readDataFromFile pf fs filename)) = None \<and>
   pointsOf (snd (readData pf fs filename)) = None"
  by (simp add: readDataFromFile_def readData_def pointsOf_def)

text \<open>
  C7, as amended. \<open>readDataFromFile\<close> and \<open>readData\<close> return the same points from a
  file that opens when no line begins with \<open>/\<close> and every line of three fields or
  more has a first or a second field that \<open>ParseFloat\<close> rejects, for a \<open>ParseFloat\<close>
  that rejects every string beginning with \<open>#\<close> or \<open>%\<close> (as \<open>strconv.ParseFloat\<close>
  does). When the scanner reports an error both return an error, as they do when
  the file does not open.
\<close>

theorem implementations_agree:
  assumes "fs filename = Inr sc"
    and "\<forall>line\<in>set (scanLines sc). \<not> HasPrefix line ''/''"
    and "\<forall>line\<in>set (scanLines sc). 3 \<le> length (Fields line) \<longrightarrow>
      pf (Fields line ! 0) = None \<or> pf (Fields line ! 1) = None"
    and "\<forall>s. HasPrefix s ''#'' \<or> HasPrefix s ''%'' \<longrightarrow> pf s = None"
  shows "pointsOf (snd (readDataFromFile pf fs filename))
    = pointsOf (snd (readData pf fs filename))"
proof -
  from ingestions_agree [OF assms(2,3,4), of "[]" 0 0 filename]
  obtain evs evs' vars where
    "readDataFromFile_loop pf (scanLines sc) ([], 0, 0)
        = (evs, Done (fst vars, snd vars, 0 + length (scanLines sc)))"
    "readData_loop pf filename (scanLines sc) ([], 0) = (evs', Done vars)"
    by blast
  with assms(1) show ?thesis
    by (cases vars) (simp add: readDataFromFile_def readData_def pointsOf_def split: option.split)
qed

lemma isDigit_hash: "\<not> isDigit (CHR ''#'')" "\<not> isDigit (CHR ''%'')"
  by code_simp+

lemma parseDecimal_rejects:
  "HasPrefix s ''#'' \<or> HasPrefix s ''%'' \<Longrightarrow> parseDecimal s = None"
  by (auto simp: HasPrefix_single parseDecimal_def isDigit_hash)

theorem implementations_agree_witness:
  "pointsOf (snd (readDataFromFile parseDecimal
      (oneFile [''# h'', ''10'', '' % c'', ''1 2'', ''x y z'', '''', ''1 x 3'']) ''data.txt''))
   = Some [\<lparr>X = 0, Y = 10\<rparr>, \<lparr>X = 1, Y = 2\<rparr>] \<and>
   pointsOf (snd (readData parseDecimal
      (oneFile [''# h'', ''10'', '' % c'', ''1 2'', ''x y z'', '''', ''1 x 3'']) ''data.txt''))
   = Some [\<lparr>X = 0, Y = 10\<rparr>, \<lparr>X = 1, Y = 2\<rparr>]"
proof -
  let ?raws = "[''# h'', ''10'', '' % c'', ''1 2'', ''x y z'', '''', ''1 x 3'']"
  have o: "oneFile ?raws ''data.txt'' = Inr \<lparr>scanLines = ?raws, scanErr = None\<rparr>"
    by (simp add: oneFile_def)
  have a: "\<forall>line\<in>set (scanLines \<lparr>scanLines = ?raws, scanErr = None\<rparr>). \<not> HasPrefix line ''/''"
    by code_simp
  have b: "\<forall>line\<in>set (scanLines \<lparr>scanLines = ?raws, scanErr = None\<rparr>).
      3 \<le> length (Fields line) \<longrightarrow>
        parseDecimal (Fields line ! 0) = None \<or> parseDecimal (Fields line ! 1) = None"
    by code_simp
  have c: "\<forall>s. HasPrefix s ''#'' \<or> HasPrefix s ''%'' \<longrightarrow> parseDecimal s = None"
    using parseDecimal_rejects by blast
  have r: "pointsOf (snd (readData parseDecimal (oneFile ?raws) ''data.txt''))
      = Some [\<lparr>X = 0, Y = 10\<rparr>, \<lparr>X = 1, Y = 2\<rparr>]"
    by code_simp
  from implementations_agree [where fs = "oneFile ?raws" and filename = "''data.txt''"
      and sc = "\<lparr>scanLines = ?raws, scanErr = None\<rparr>" and pf = parseDecimal, OF o a b c] r
  show ?thesis by simp
qed

text \<open>
  C7 as stated fails on a line of three fields, which does not begin with \<open>/\<close>:
  \<open>readDataFromFile\<close> reads the first two fields of \<open>1 2 3\<close> as a point, \<open>readData\<close>
  rejects the line.
\<close>

theorem implementations_disagree:
  "\<not> HasPrefix ''1 2 3'' ''/'' \<and>
   snd (readDataFromFile parseDecimal (oneFile [''1 2 3'']) ''data.txt'')
     = Done (Inr [\<lparr>X = 1, Y = 2\<rparr>]) \<and>
   snd (readData parseDecimal (oneFile [''1 2 3'']) ''data.txt'') = Done (Inr [])"
  by code_simp

section \<open>Where else the two programs differ\<close>

text \<open>
  The earlier program looks for the comment characters before any trimming, so an
  indented comment is a line that does not parse; it compares \<open>TERM\<close> as it is; it
  prints a notice when the terminal is not supported; it sets the encoder's size only
  when both numbers are positive; its default size is 800 by 600.
\<close>

lemma indented_comment_first:
  "readDataFromFile_body parseDecimal ''  # c'' ([], 0, 0)
     = ([PrintParsingError 1 ''  # c''], Done ([], 0, 1)) \<and>
   readData_body parseDecimal ''data.txt'' ''  # c'' ([], 0) = ([], Done ([], 0))"
  by code_simp

lemma upper_case_TERM_first:
  "\<not> isSixelSupported_first (\<lambda>key. if key = ''TERM'' then Some ''XTERM'' else None) \<and>
   isSixelSupported (\<lambda>key. if key = ''TERM'' then Some ''XTERM'' else None)"
  by code_simp

lemma unsupported_notice_first:
  "plotDataToSixel (sampleWorld [''1 2''] None) ''data.txt''
     \<lparr>width = 100, height = 50, scale = 2\<rparr>
     = ([WritePlot 100 50 ''data_plot.png'', PrintPlotSaved ''data_plot.png'',
         PrintNoSixel ''data_plot.png''], Done (Inr ()))"
  by code_simp

lemma negative_scale_first:
  "plotDataToSixel (sampleWorld [''1 2''] (Some ''xterm'')) ''data.txt''
     \<lparr>width = 100, height = 50, scale = - 1\<rparr>
     = ([WritePlot 100 50 ''data_plot.png'', PrintPlotSaved ''data_plot.png'',
         EncodeSixel 0 0], Done (Inr ())) \<and>
   run (sampleWorld [''1 2''] (Some ''xterm'')) (sampleConfig 100 50 (- 1))
     = ([WritePlot 100 50 ''data_plot.png'', LogPlotSaved ''data_plot.png'',
         EncodeSixel (- 100) (- 50)], Done (Inr ()))"
  by code_simp

lemma default_size_first:
  "main_first (sampleWorld [''1 2''] None)
     \<lparr>flag_width = None, flag_height = None, flag_scale = None, Args_first = [''data.txt'']\<rparr>
     = ([WritePlot 800 600 ''data_plot.png'', PrintPlotSaved ''data_plot.png'',
         PrintNoSixel ''data_plot.png''], 0) \<and>
   main (sampleWorld [''1 2''] None)
     \<lparr>flag_w = None, flag_h = None, flag_s = None, flag_line_width = None,
      Args = [''data.txt'']\<rparr>
     = ([WritePlot 1200 1200 ''data_plot.png'', LogPlotSaved ''data_plot.png''], 0)"
  by code_simp

end
